theory Spec2Isabelle
  imports Main "HOL-Library.AList"
begin

section \<open>JavaScript values and strings\<close>

text \<open>
  Identifiers of the host (node ids, graph ids, widget names) are modelled by the string
  that \<^verbatim>\<open>String(x)\<close> and template literals render for them. A property that may be
  \<^verbatim>\<open>undefined\<close> is a \<open>string option\<close>; the empty string and \<^verbatim>\<open>undefined\<close> are
  the falsy values.
\<close>

datatype error = ReferenceError string | TypeError string

definition truthy :: "string option \<Rightarrow> bool" where
  "truthy v = (case v of None \<Rightarrow> False | Some s \<Rightarrow> s \<noteq> [])"

definition js_or :: "string option \<Rightarrow> string option \<Rightarrow> string option" where
  \<comment> \<open>\<^verbatim>\<open>a || b\<close>\<close>
  "js_or a b = (if truthy a then a else b)"

definition render :: "string option \<Rightarrow> string" where
  \<comment> \<open>a value inside a template literal\<close>
  "render v = (case v of None \<Rightarrow> ''undefined'' | Some s \<Rightarrow> s)"

definition startsWith :: "string \<Rightarrow> string \<Rightarrow> bool" where
  "startsWith s p = (take (length p) s = p)"

fun split_on :: "'a \<Rightarrow> 'a list \<Rightarrow> 'a list list" where
  "split_on c [] = [[]]"
| "split_on c (x # xs) =
     (if x = c then [] # split_on c xs
      else (case split_on c xs of [] \<Rightarrow> [[x]] | p # ps \<Rightarrow> (x # p) # ps))"

text \<open>
  The text of an input (what the user types, what a provider returns, what the history and
  the translate cache hold) is a JavaScript string in full: the sequence of its UTF-16
  code units, each given by its number. \<open>lit\<close> is the text of an ASCII literal.
  \<^verbatim>\<open>String.prototype.trim\<close> strips white space and line terminators, all of which are
  single code units: tab, line feed, vertical tab, form feed, carriage return, space,
  no-break space (U+00A0), U+1680, U+2000 to U+200A, the line and paragraph separators
  (U+2028, U+2029), U+202F, U+205F, the ideographic space (U+3000) and the byte order
  mark (U+FEFF). A string trims to the empty string exactly when each of its code units
  is one of those.
\<close>

type_synonym code_unit = int
type_synonym jstring = "code_unit list"

definition lit :: "string \<Rightarrow> jstring" where
  "lit s = map of_char s"

definition isWhiteSpace :: "code_unit \<Rightarrow> bool" where
  "isWhiteSpace c =
     (c \<in> set [0x09, 0x0A, 0x0B, 0x0C, 0x0D, 0x20, 0xA0, 0x1680, 0x2028, 0x2029, 0x202F,
                0x205F, 0x3000, 0xFEFF] \<or>
      (0x2000 \<le> c \<and> c \<le> 0x200A))"

definition is_blank :: "jstring \<Rightarrow> bool" where
  \<comment> \<open>\<^verbatim>\<open>s.trim() === ''\<close>\<close>
  "is_blank s = list_all isWhiteSpace s"

definition orEmpty :: "jstring option \<Rightarrow> jstring" where
  \<comment> \<open>\<^verbatim>\<open>x || ''\<close> for a string that may be undefined\<close>
  "orEmpty v = (case v of None \<Rightarrow> [] | Some s \<Rightarrow> s)"

section \<open>Host objects\<close>

type_synonym elem = nat
type_synonym wid = nat

record graph =
  g_id :: "string option"
  g_workflow_id :: "string option"

record input_widget =
  w_name :: "string option"
  w_id :: "string option"
  w_inputEl :: "elem option"
  w_element :: "elem option"
  w_valid :: bool

record node =
  n_id :: string
  n_graph :: "graph option"
  n_widgets :: "input_widget list option"
  n_markdown :: bool
  n_subgraphWord :: bool
  n_uuid :: bool
  n_subgraphType :: bool

text \<open>
  \<open>w_valid\<close> is the answer of \<^verbatim>\<open>UIToolkit.isValidInput\<close> for the widget. The type of a
  node is a string, and the tests on \<^verbatim>\<open>node.type\<close> are taken as given: \<open>n_markdown\<close>
  (one of the four note types, or the lowercased type contains "markdown", or both
  "preview" and "text"), \<open>n_subgraphWord\<close> (the lowercased type contains "subgraph"),
  \<open>n_uuid\<close> (the type has the shape of a UUID) and \<open>n_subgraphType\<close> (the type is
  "Subgraph", starts with "workflow/", or the constructor is named Subgraph).
\<close>

datatype el_kind = Textarea | RichEditor | ContentEditable | OtherElement

record dom_el =
  paMounted :: bool
  paWidgetKey :: "string option"
  paBound :: bool
  paUniqueId :: "string option"
  inBody :: bool
  inNode :: "string option"
  parentEl :: "elem option"
  hosted :: "elem list"
  destroyed :: bool
  el_kind :: el_kind
  el_value :: jstring
  el_events :: "string list"
  listeners :: "(string \<times> wid) list"
  observers :: "wid list"

section \<open>Key resolution\<close>

definition getAssistantKey :: "graph option \<Rightarrow> node \<Rightarrow> string option \<Rightarrow> string" where
  "getAssistantKey appGraph node inputId =
     (let graph = (case n_graph node of Some g \<Rightarrow> Some g | None \<Rightarrow> appGraph);
          gid = (case graph of None \<Rightarrow> None
                 | Some g \<Rightarrow> js_or (g_id g) (g_workflow_id g));
          graphId = (if truthy gid then render gid else ''main'')
      in graphId @ ''_'' @ n_id node @ ''_'' @ render inputId)"

definition inputIdOf :: "input_widget \<Rightarrow> string option" where
  \<comment> \<open>\<^verbatim>\<open>inputWidget.name || inputWidget.id\<close>\<close>
  "inputIdOf w = js_or (w_name w) (w_id w)"

definition elOf :: "input_widget \<Rightarrow> elem option" where
  \<comment> \<open>\<^verbatim>\<open>inputWidget.inputEl || inputWidget.element\<close>\<close>
  "elOf w = (case w_inputEl w of Some e \<Rightarrow> Some e | None \<Rightarrow> w_element w)"

text \<open>
  The key computed by the body of the loop of \<^verbatim>\<open>checkAndSetupNode\<close> (lines 768 to 788).
  For an input whose name is shared, the source builds the identifier from the variable
  \<^verbatim>\<open>graphId\<close>, which is declared in \<^verbatim>\<open>_getAssistantKey\<close> only: evaluating either template
  literal (lines 781 and 786) raises a ReferenceError, before the assignment to the
  element's dataset takes place. Only an identifier that is already on the element is
  read back.
\<close>

definition resolveKey ::
  "graph option \<Rightarrow> (elem \<Rightarrow> dom_el) \<Rightarrow> node \<Rightarrow> input_widget list \<Rightarrow> input_widget \<Rightarrow> error + string"
where
  "resolveKey appGraph es node validInputs inputWidget =
     (let inputId = inputIdOf inputWidget;
          assistantKey = getAssistantKey appGraph node inputId;
          sameNameWidgets = filter (\<lambda>w. inputIdOf w = inputId) validInputs
      in if length sameNameWidgets > 1 then
           (case elOf inputWidget of
              Some e \<Rightarrow>
                (if truthy (paUniqueId (es e)) then Inr (render (paUniqueId (es e)))
                 else Inl (ReferenceError ''graphId''))
            | None \<Rightarrow> Inl (ReferenceError ''graphId''))
         else Inr assistantKey)"

section \<open>Assistant instances and the shared state\<close>

datatype cleanup_fn =
    RemoveListener elem string wid
  | DisconnectObserver elem wid
  | RemoveWindowListener wid

datatype render_mode = VUE_NODES | LITEGRAPH

record history_item =
  h_node :: "string option"
  h_input :: "string option"
  h_content :: jstring
  h_op :: string

record widget =
  nodeId :: "string option"
  inputId :: "string option"
  widgetKey :: "string option"
  text_element :: "elem option"
  inputEl :: "elem option"
  element :: "elem option"
  container :: "elem option"
  isDestroyed :: bool
  isMounting :: bool
  inputEventsBound :: bool
  undoStateInitialized :: bool
  eventCleanupFunctions :: "cleanup_fn list"
  renderMode :: "render_mode option"
  valueProp :: "jstring option"

record translate_cache =
  tc_source :: "(jstring \<times> jstring) list"
  tc_translated :: "(jstring \<times> jstring) list"

datatype request =
    ConfigFetch
  | GoogleTranslate jstring
  | BaiduTranslate jstring
  | LlmTranslateStream jstring
  | LlmTranslate jstring
  | LlmExpandStream jstring
  | LlmExpand jstring

datatype log_entry =
    NodeSummary string "string list" nat nat
  | GlobalSummary "string list" nat nat
  | RemainingStats

text \<open>
  Assistant objects are shared between the registry, the global input map and the
  closures of pending callbacks, so they live in a store \<open>heap\<close> indexed by an address;
  \<open>instances\<close> is \<^verbatim>\<open>PromptAssistant.instances\<close>, a Map in insertion order from key to
  object. \<open>els\<close> holds, for every DOM element, the properties the module reads and writes
  on it: the mount marker (\<open>paMounted\<close>, \<open>paWidgetKey\<close>), the binding flag \<open>paBound\<close>, the
  dataset identifier, whether \<^verbatim>\<open>document.body\<close> contains it, the node container
  (\<^verbatim>\<open>[data-node-id]\<close>) that contains it, its parent, the assistant roots appended to it,
  whether \<^verbatim>\<open>destroy()\<close> was called on the AssistantContainer rendered into it, and the
  listeners and resize observers registered on it, each tagged with the assistant object
  whose closure it is. \<open>el_kind\<close> says which branch of \<^verbatim>\<open>setInputValue\<close> the element takes
  (a textarea with a value; a tiptap, ProseMirror or comfy-markdown editor; another
  content-editable element; anything else), \<open>el_value\<close> is its text (the value, the text
  content or the inner HTML, as the branch has it) and \<open>el_events\<close> the events dispatched
  on it. \<open>valueProp\<close> is the property \<^verbatim>\<open>value\<close> of an assistant object, \<open>requests\<close> the
  calls made to the backend, and \<open>enableStreaming\<close> stands for
  \<^verbatim>\<open>FEATURES.enableStreaming !== false\<close>. \<open>historyLimit\<close> is the bound that the
  history service keeps on the entries of one input, and \<open>recorded\<close> lists the entries
  that were handed to the history service for recording (\<^verbatim>\<open>addHistory\<close>,
  \<^verbatim>\<open>addHistoryAndUpdateUndoState\<close>), one for each call, in order.
  \<open>logs\<close> holds the messages written with \<^verbatim>\<open>logger.log\<close>; debug,
  warning and error messages, buttons, styles and the undo cursor of the history service
  are outside the model. A missing \<^verbatim>\<open>window.PromptAssistantInputWidgetMap\<close> is the empty
  map.
\<close>

record state =
  instances :: "(string \<times> wid) list"
  heap :: "wid \<Rightarrow> widget"
  nextWid :: wid
  els :: "elem \<Rightarrow> dom_el"
  nextEl :: elem
  windowListeners :: "wid list"
  inputWidgetMap :: "(string \<times> wid) list"
  history :: "history_item list"
  historyLimit :: nat
  recorded :: "history_item list"
  tagCache :: "((string \<times> string) \<times> string list) list"
  translateCache :: translate_cache
  requests :: "request list"
  featuresEnabled :: bool
  useTranslateCache :: bool
  cacheMixedLangTranslation :: bool
  enableStreaming :: bool
  vueNodesMode :: bool
  svcVueMode :: bool
  switching :: bool
  hasResizeObserver :: bool
  appGraph :: "graph option"
  rand :: string
  logs :: "log_entry list"

definition wiped :: widget where
  \<comment> \<open>an object all of whose properties were deleted\<close>
  "wiped = \<lparr>nodeId = None, inputId = None, widgetKey = None, text_element = None,
     inputEl = None, element = None, container = None, isDestroyed = False,
     isMounting = False, inputEventsBound = False, undoStateInitialized = False,
     eventCleanupFunctions = [], renderMode = None, valueProp = None\<rparr>"

definition updW :: "wid \<Rightarrow> (widget \<Rightarrow> widget) \<Rightarrow> state \<Rightarrow> state" where
  "updW w f st = st\<lparr>heap := (heap st)(w := f (heap st w))\<rparr>"

definition updEl :: "elem \<Rightarrow> (dom_el \<Rightarrow> dom_el) \<Rightarrow> state \<Rightarrow> state" where
  "updEl e f st = st\<lparr>els := (els st)(e := f (els st e))\<rparr>"

definition hasInstance :: "state \<Rightarrow> string \<Rightarrow> bool" where
  "hasInstance st key = (map_of (instances st) key \<noteq> None)"

definition getInstance :: "state \<Rightarrow> string \<Rightarrow> wid option" where
  "getInstance st key = map_of (instances st) key"

definition addInstance :: "string \<Rightarrow> wid \<Rightarrow> state \<Rightarrow> state" where
  "addInstance key w st = st\<lparr>instances := AList.update key w (instances st)\<rparr>"

definition deleteInstance :: "string \<Rightarrow> state \<Rightarrow> state" where
  \<comment> \<open>\<^verbatim>\<open>PromptAssistant.instances.delete(key)\<close>\<close>
  "deleteInstance key st = st\<lparr>instances := AList.delete key (instances st)\<rparr>"

section \<open>History and tag services\<close>

text \<open>
  Modelled from the spec: \<^verbatim>\<open>HistoryCacheService\<close> and \<^verbatim>\<open>TagCacheService\<close>
  (services/cache.js) are not among the sources. The history store holds the recorded
  entries in the order of recording; the entries of one input, the history key, are those
  with its node and input. Recording an entry appends it only if no identical entry is
  pending for the key, that is, unless the latest entry of the key holds the same text;
  the entries of a key are bounded in number, and the oldest ones are evicted when the
  bound is passed. \<open>clearNodeHistory\<close> removes the entries of one node, clearing all
  history empties the store. The tag cache maps a pair of node and input to its tags.
\<close>

definition sameKey :: "history_item \<Rightarrow> history_item \<Rightarrow> bool" where
  "sameKey a b = (h_node a = h_node b \<and> h_input a = h_input b)"

definition pendingIdentical :: "history_item \<Rightarrow> history_item list \<Rightarrow> bool" where
  "pendingIdentical item h =
     (case filter (sameKey item) (rev h) of
        [] \<Rightarrow> False
      | latest # _ \<Rightarrow> h_content latest = h_content item)"

fun evict :: "nat \<Rightarrow> history_item \<Rightarrow> history_item list \<Rightarrow> history_item list" where
  \<comment> \<open>without the \<open>n\<close> oldest entries of the key\<close>
  "evict 0 item h = h"
| "evict (Suc n) item [] = []"
| "evict (Suc n) item (x # xs) =
     (if sameKey item x then evict n item xs else x # evict (Suc n) item xs)"

definition recordInput :: "nat \<Rightarrow> history_item \<Rightarrow> history_item list \<Rightarrow> history_item list" where
  "recordInput limit item h =
     (if pendingIdentical item h then h
      else evict (length (filter (sameKey item) (h @ [item])) - limit) item (h @ [item]))"

definition addHistory :: "history_item \<Rightarrow> state \<Rightarrow> state" where
  "addHistory item st = st\<lparr>history := recordInput (historyLimit st) item (history st),
     recorded := recorded st @ [item]\<rparr>"

definition clearNodeHistory :: "string \<Rightarrow> history_item list \<Rightarrow> history_item list" where
  "clearNodeHistory n h = filter (\<lambda>i. h_node i \<noteq> Some n) h"

definition getAllRawTags :: "state \<Rightarrow> string \<Rightarrow> string \<Rightarrow> string list option" where
  "getAllRawTags st n i = map_of (tagCache st) (n, i)"

definition clearCache :: "string \<Rightarrow> string \<Rightarrow> state \<Rightarrow> state" where
  "clearCache n i st = st\<lparr>tagCache := AList.delete (n, i) (tagCache st)\<rparr>"

definition tagTotal :: "state \<Rightarrow> nat" where
  \<comment> \<open>\<^verbatim>\<open>TagCacheService.getTagStats().total\<close>\<close>
  "tagTotal st = sum_list (map (\<lambda>p. length (snd p)) (tagCache st))"

section \<open>Teardown and cleanup\<close>

definition runCleanup :: "cleanup_fn \<Rightarrow> state \<Rightarrow> state" where
  "runCleanup c st =
     (case c of
        RemoveListener e t w \<Rightarrow> updEl e (\<lambda>d. d\<lparr>listeners := remove1 (t, w) (listeners d)\<rparr>) st
      | DisconnectObserver e w \<Rightarrow> updEl e (\<lambda>d. d\<lparr>observers := remove1 w (observers d)\<rparr>) st
      | RemoveWindowListener w \<Rightarrow> st\<lparr>windowListeners := remove1 w (windowListeners st)\<rparr>)"

definition resetBound :: "elem option \<Rightarrow> state \<Rightarrow> state" where
  "resetBound eo st =
     (case eo of None \<Rightarrow> st
      | Some e \<Rightarrow> if paBound (els st e) then updEl e (\<lambda>d. d\<lparr>paBound := False\<rparr>) st else st)"

definition resetMounted :: "elem option \<Rightarrow> state \<Rightarrow> state" where
  "resetMounted eo st =
     (case eo of None \<Rightarrow> st
      | Some e \<Rightarrow>
          if paMounted (els st e)
          then updEl e (\<lambda>d. d\<lparr>paMounted := False, paWidgetKey := None\<rparr>) st else st)"

definition detach :: "elem \<Rightarrow> state \<Rightarrow> state" where
  \<comment> \<open>\<^verbatim>\<open>if (el.parentNode) el.parentNode.removeChild(el)\<close>\<close>
  "detach ui st =
     (case parentEl (els st ui) of None \<Rightarrow> st
      | Some c \<Rightarrow>
          updEl ui (\<lambda>d. d\<lparr>parentEl := None\<rparr>)
            (updEl c (\<lambda>d. d\<lparr>hosted := remove1 ui (hosted d)\<rparr>) st))"

definition bindingsOf :: "state \<Rightarrow> (elem \<Rightarrow> (string \<times> wid) list \<times> wid list) \<times> wid list" where
  \<comment> \<open>everything that is attached: the listeners and resize observers of every element,
      and the resize listeners of the window\<close>
  "bindingsOf st = ((\<lambda>e. (listeners (els st e), observers (els st e))), windowListeners st)"

definition cleanupInstance :: "wid \<Rightarrow> string \<Rightarrow> bool \<Rightarrow> state \<Rightarrow> state" where
  "cleanupInstance w instanceKey skipRemove st =
     (let inst = heap st w;
          st3 = fold runCleanup (eventCleanupFunctions inst) st;
          st35 = resetBound (text_element inst) (resetBound (inputEl inst) st3);
          st36 = (if text_element inst \<noteq> inputEl inst
                  then resetMounted (text_element inst) (resetMounted (inputEl inst) st35)
                  else resetMounted (inputEl inst) st35);
          st4 = (case element inst of None \<Rightarrow> st36 | Some ui \<Rightarrow> detach ui st36);
          st5 = (if instanceKey \<noteq> []
                 then st4\<lparr>inputWidgetMap := AList.delete instanceKey (inputWidgetMap st4)\<rparr>
                 else st4);
          st7 = (if \<not> skipRemove \<and> instanceKey \<noteq> [] then deleteInstance instanceKey st5 else st5)
      in updW w (\<lambda>_. wiped) st7)"

definition keyMatchesNode :: "string \<Rightarrow> string \<Rightarrow> bool" where
  \<comment> \<open>the filter of lines 518 to 526\<close>
  "keyMatchesNode searchId key =
     (key = searchId \<or> startsWith key (searchId @ ''_'') \<or>
      (let parts = split_on CHR ''_'' key in length parts \<ge> 2 \<and> parts ! 1 = searchId))"

definition switchingMatch :: "string option \<Rightarrow> string \<Rightarrow> bool" where
  \<comment> \<open>the filter of line 494\<close>
  "switchingMatch nid key =
     (case nid of None \<Rightarrow> True | Some n \<Rightarrow> startsWith key (n @ ''_''))"

definition cleanupKey :: "bool \<Rightarrow> string \<Rightarrow> state \<Rightarrow> state" where
  "cleanupKey skipRemove key st =
     (case getInstance st key of None \<Rightarrow> st
      | Some w \<Rightarrow> cleanupInstance w key skipRemove st)"

definition clearTagsOf :: "string \<Rightarrow> string \<Rightarrow> (state \<times> nat \<times> string list) \<Rightarrow> (state \<times> nat \<times> string list)" where
  \<comment> \<open>the body of the loop of lines 541 to 549\<close>
  "clearTagsOf nid key acc =
     (case acc of (st, tagCount, instanceNames) \<Rightarrow>
        (case getInstance st key of None \<Rightarrow> acc
         | Some w \<Rightarrow>
             (if truthy (inputId (heap st w)) then
                (let i = render (inputId (heap st w));
                     n = (case getAllRawTags st nid i of None \<Rightarrow> 0 | Some ts \<Rightarrow> length ts)
                 in (clearCache nid i st, tagCount + n, instanceNames @ [i]))
              else acc)))"

definition cleanupAndDelete :: "string \<Rightarrow> state \<Rightarrow> state" where
  \<comment> \<open>the body of the loop of lines 552 to 558\<close>
  "cleanupAndDelete key st =
     (case getInstance st key of None \<Rightarrow> st
      | Some w \<Rightarrow> deleteInstance key (cleanupInstance w key True st))"

definition cleanupAll :: "(string \<times> wid) \<Rightarrow> (state \<times> string list) \<Rightarrow> (state \<times> string list)" where
  \<comment> \<open>the body of the loop of lines 598 to 603\<close>
  "cleanupAll kw acc =
     (case acc of (st, names) \<Rightarrow>
        (let nm = (if truthy (inputId (heap st (snd kw))) then render (inputId (heap st (snd kw)))
                   else fst kw)
         in (cleanupInstance (snd kw) (fst kw) True st, names @ [nm])))"

definition cleanup :: "string option \<Rightarrow> bool \<Rightarrow> state \<Rightarrow> state" where
  "cleanup nid silent st =
     (if switching st then
        (let keysToDelete = filter (switchingMatch nid) (map fst (instances st));
             st1 = fold (cleanupKey False) keysToDelete st
         in if nid = None then st1\<lparr>instances := []\<rparr> else st1)
      else
        (case nid of
           Some n \<Rightarrow>
             (let keysToDelete = filter (keyMatchesNode n) (map fst (instances st))
              in if keysToDelete \<noteq> [] then
                   (let historyCount = length (filter (\<lambda>i. h_node i = Some n) (history st));
                        st1 = st\<lparr>history := clearNodeHistory n (history st)\<rparr>;
                        r = fold (clearTagsOf n) keysToDelete (st1, 0, []);
                        st3 = fold cleanupAndDelete keysToDelete (fst r)
                    in if \<not> silent
                       then st3\<lparr>logs := logs st3 @
                              [NodeSummary n (snd (snd r)) historyCount (fst (snd r))]\<rparr>
                       else st3)
                 else st)
         | None \<Rightarrow>
             (if instances st \<noteq> [] then
                (let totalHistoryCount = length (history st);
                     totalTagCount = tagTotal st;
                     st1 = st\<lparr>history := [], tagCache := []\<rparr>;
                     r = fold cleanupAll (instances st1) (st1, []);
                     st3 = (fst r)\<lparr>instances := []\<rparr>
                 in if \<not> silent
                    then st3\<lparr>logs := logs st3 @
                           [GlobalSummary (snd r) totalHistoryCount totalTagCount, RemainingStats]\<rparr>
                    else st3)
              else st)))"

section \<open>Event binding\<close>

definition addDOMListener :: "elem \<Rightarrow> string \<Rightarrow> wid \<Rightarrow> state \<Rightarrow> state" where
  \<comment> \<open>\<^verbatim>\<open>EventManager.addDOMListener\<close>, with the remover pushed on the assistant's list\<close>
  "addDOMListener e t w st =
     updW w (\<lambda>x. x\<lparr>eventCleanupFunctions := eventCleanupFunctions x @ [RemoveListener e t w]\<rparr>)
       (updEl e (\<lambda>d. d\<lparr>listeners := listeners d @ [(t, w)]\<rparr>) st)"

definition observeResize :: "elem \<Rightarrow> wid \<Rightarrow> state \<Rightarrow> state" where
  "observeResize e w st =
     updW w (\<lambda>x. x\<lparr>eventCleanupFunctions := eventCleanupFunctions x @ [DisconnectObserver e w]\<rparr>)
       (updEl e (\<lambda>d. d\<lparr>observers := observers d @ [w]\<rparr>) st)"

definition addWindowResize :: "wid \<Rightarrow> state \<Rightarrow> state" where
  "addWindowResize w st =
     updW w (\<lambda>x. x\<lparr>eventCleanupFunctions := eventCleanupFunctions x @ [RemoveWindowListener w]\<rparr>)
       (st\<lparr>windowListeners := windowListeners st @ [w]\<rparr>)"

definition domValue :: "dom_el \<Rightarrow> jstring" where
  \<comment> \<open>\<^verbatim>\<open>inputEl.value || ''\<close>: only a textarea has a value\<close>
  "domValue d = (if el_kind d = Textarea then el_value d else [])"

definition initializeInputElBindings ::
  "wid \<Rightarrow> input_widget \<Rightarrow> node \<Rightarrow> string option \<Rightarrow> state \<Rightarrow> state" where
  "initializeInputElBindings w inputWidget node inpId st =
     (case (case w_inputEl inputWidget of Some e \<Rightarrow> Some e | None \<Rightarrow> inputEl (heap st w)) of
        None \<Rightarrow> st
      | Some e \<Rightarrow>
          (let st1 =
                 (if \<not> undoStateInitialized (heap st w) then
                    updW w (\<lambda>x. x\<lparr>undoStateInitialized := True\<rparr>)
                      (if \<not> is_blank (domValue (els st e))
                       then addHistory \<lparr>h_node = Some (n_id node), h_input = inpId,
                              h_content = domValue (els st e), h_op = ''input''\<rparr> st
                       else st)
                  else st)
           in if inputEventsBound (heap st1 w) then st1
              else
                (let st2 = updW w (\<lambda>x. x\<lparr>inputEventsBound := True\<rparr>)
                             (updEl e (\<lambda>d. d\<lparr>paBound := True\<rparr>) st1);
                     st3 = addDOMListener e ''input'' w (addDOMListener e ''blur'' w st2)
                 in if hasResizeObserver st3 then observeResize e w st3
                    else addWindowResize w st3)))"

section \<open>Positioning\<close>

record container_info =
  ci_container :: "elem option"
  ci_textarea :: "elem option"
  ci_nodeContainer :: bool
  ci_nodeTextareas :: "elem list"
  ci_isNoteNode :: bool
  ci_mode :: render_mode

text \<open>
  \<open>container_info\<close> is what \<^verbatim>\<open>nodeMountService.findMountContainerWithRetry\<close> resolves to;
  \<open>ci_nodeContainer\<close> tells whether \<^verbatim>\<open>nodeContainer\<close> is set and \<open>ci_nodeTextareas\<close>
  is what \<^verbatim>\<open>nodeContainer.querySelectorAll('textarea')\<close> returns. An assistant root is
  found by \<^verbatim>\<open>querySelector('.assistant-container-common')\<close> in the element it was
  appended to. The positioning functions return the exception they raise, if any, with
  the state reached at that point.
\<close>

definition destroyContainer :: "elem option \<Rightarrow> state \<Rightarrow> state" where
  \<comment> \<open>\<^verbatim>\<open>container.destroy()\<close> on the AssistantContainer whose root is the element\<close>
  "destroyContainer co st =
     (case co of None \<Rightarrow> st | Some ce \<Rightarrow> updEl ce (\<lambda>d. d\<lparr>destroyed := True\<rparr>) st)"

definition dropRegistered :: "wid \<Rightarrow> state \<Rightarrow> state" where
  \<comment> \<open>\<^verbatim>\<open>if (widget.widgetKey && instances.has(widget.widgetKey)) instances.delete(...)\<close>\<close>
  "dropRegistered w st =
     (if truthy (widgetKey (heap st w)) \<and> hasInstance st (render (widgetKey (heap st w)))
      then deleteInstance (render (widgetKey (heap st w))) st else st)"

definition cleanupRedundantWidget :: "wid \<Rightarrow> state \<Rightarrow> state" where
  "cleanupRedundantWidget w st =
     (let st1 = dropRegistered w st in destroyContainer (container (heap st1 w)) st1)"

definition appendChild :: "elem \<Rightarrow> elem \<Rightarrow> state \<Rightarrow> state" where
  "appendChild c ui st =
     (let st1 = detach ui st
      in updEl ui (\<lambda>d. d\<lparr>parentEl := Some c\<rparr>)
           (updEl c (\<lambda>d. d\<lparr>hosted := hosted d @ [ui]\<rparr>) st1))"

definition setMountMarker :: "elem \<Rightarrow> wid \<Rightarrow> state \<Rightarrow> state" where
  "setMountMarker e w st =
     updEl e (\<lambda>d. d\<lparr>paMounted := True, paWidgetKey := widgetKey (heap st w)\<rparr>) st"

definition adoptTextarea :: "elem option \<Rightarrow> wid \<Rightarrow> state \<Rightarrow> state" where
  \<comment> \<open>\<^verbatim>\<open>if (textarea && textarea !== widget.inputEl)\<close>: the reference is replaced\<close>
  "adoptTextarea textarea w st =
     (if textarea \<noteq> None \<and> textarea \<noteq> inputEl (heap st w)
      then updW w (\<lambda>x. x\<lparr>inputEl := textarea, text_element := textarea\<rparr>) st else st)"

definition litegraphBind :: "wid \<Rightarrow> elem \<Rightarrow> state \<Rightarrow> state" where
  \<comment> \<open>lines 2864 to 2897\<close>
  "litegraphBind w e st =
     (let st1 = updW w (\<lambda>x. x\<lparr>inputEventsBound := True\<rparr>)
                  (updEl e (\<lambda>d. d\<lparr>paBound := True\<rparr>) st);
          st2 = addDOMListener e ''input'' w (addDOMListener e ''blur'' w st1)
      in updW w (\<lambda>x. x\<lparr>undoStateInitialized := True\<rparr>) st2)"

definition litegraphTarget :: "wid \<Rightarrow> container_info \<Rightarrow> state \<Rightarrow> elem option" where
  \<comment> \<open>\<^verbatim>\<open>widget.inputEl || textarea\<close> after line 2845\<close>
  "litegraphTarget w info st =
     (case inputEl (heap (adoptTextarea (ci_textarea info) w st) w) of
        Some e \<Rightarrow> Some e | None \<Rightarrow> ci_textarea info)"

definition applyLitegraphPositioning ::
  "wid \<Rightarrow> elem \<Rightarrow> container_info \<Rightarrow> state \<Rightarrow> error option \<times> state" where
  "applyLitegraphPositioning w containerDiv info st =
     (let st1 = adoptTextarea (ci_textarea info) w st;
          target = litegraphTarget w info st;
          st2 = (case target of
                   Some e \<Rightarrow> if \<not> inputEventsBound (heap st1 w) then litegraphBind w e st1 else st1
                 | None \<Rightarrow> st1)
      in if (case target of Some e \<Rightarrow> paMounted (els st2 e) | None \<Rightarrow> False)
         then (None, destroyContainer (container (heap st2 w)) (dropRegistered w st2))
         else
           (case ci_container info of
              None \<Rightarrow> (Some (TypeError ''querySelector''), st2)
            | Some c \<Rightarrow>
                if hosted (els st2 c) \<noteq> []
                then (None, destroyContainer (container (heap st2 w)) (dropRegistered w st2))
                else
                  (let st3 = (case target of Some e \<Rightarrow> setMountMarker e w st2 | None \<Rightarrow> st2)
                   in (None, appendChild c containerDiv st3))))"

definition vueBind :: "wid \<Rightarrow> elem \<Rightarrow> state \<Rightarrow> state" where
  \<comment> \<open>lines 2742 to 2776\<close>
  "vueBind w e st =
     (if paBound (els st e) then st
      else
        (let st1 = updEl e (\<lambda>d. d\<lparr>paBound := True\<rparr>) st;
             st2 = addDOMListener e ''input'' w (addDOMListener e ''blur'' w st1);
             st3 = (if hasResizeObserver st2 then observeResize e w st2 else st2)
         in updW w (\<lambda>x. x\<lparr>undoStateInitialized := True\<rparr>) st3))"

definition vueLookup :: "container_info \<Rightarrow> state \<Rightarrow> elem option \<times> elem option" where
  \<comment> \<open>the container and the textarea after the second lookup of lines 2724 to 2732\<close>
  "vueLookup info st =
     (if ci_textarea info = None \<and> ci_isNoteNode info \<and> ci_nodeContainer info then
        (case ci_nodeTextareas info of
           [] \<Rightarrow> (ci_container info, None)
         | t # _ \<Rightarrow> (parentEl (els st t), Some t))
      else (ci_container info, ci_textarea info))"

definition applyVueNodesPositioning ::
  "wid \<Rightarrow> elem \<Rightarrow> container_info \<Rightarrow> state \<Rightarrow> error option \<times> state" where
  "applyVueNodesPositioning w containerDiv info st =
     (let cont = fst (vueLookup info st);
          textarea = snd (vueLookup info st);
          st1 = (case textarea of
                   Some t \<Rightarrow> if textarea \<noteq> inputEl (heap st w)
                             then vueBind w t (adoptTextarea textarea w st) else st
                 | None \<Rightarrow> st)
      in if (case textarea of
               Some t \<Rightarrow> paMounted (els st1 t) \<and> paWidgetKey (els st1 t) \<noteq> widgetKey (heap st1 w)
             | None \<Rightarrow> False)
         then (None, cleanupRedundantWidget w st1)
         else
           (case cont of
              None \<Rightarrow> (Some (TypeError ''querySelector''), st1)
            | Some c \<Rightarrow>
                if hosted (els st1 c) \<noteq> [] \<and> containerDiv \<notin> set (hosted (els st1 c))
                then (None, cleanupRedundantWidget w st1)
                else
                  (let st2 = (case textarea of Some t \<Rightarrow> setMountMarker t w st1 | None \<Rightarrow> st1)
                   in (None, if containerDiv \<in> set (hosted (els st2 c)) then st2
                             else appendChild c containerDiv st2))))"

definition onComplete :: "wid \<Rightarrow> elem \<Rightarrow> bool \<Rightarrow> state \<Rightarrow> state" where
  \<comment> \<open>the callback of \<^verbatim>\<open>createAssistantUI\<close>, lines 1341 to 1365\<close>
  "onComplete w containerEl success st =
     (if isDestroyed (heap st w) then st
      else if \<not> success then
        (let st1 = destroyContainer (Some containerEl) st;
             k = widgetKey (heap st1 w);
             st2 = (if truthy k \<and> hasInstance st1 (render k) then deleteInstance (render k) st1
                    else st1)
         in if truthy k
            then st2\<lparr>inputWidgetMap := AList.delete (render k) (inputWidgetMap st2)\<rparr>
            else st2)
      else updW w (\<lambda>x. x\<lparr>isMounting := False\<rparr>) st)"

definition containerFound :: "wid \<Rightarrow> elem \<Rightarrow> container_info option \<Rightarrow> state \<Rightarrow> state" where
  \<comment> \<open>the continuation of \<^verbatim>\<open>findMountContainerWithRetry\<close> in \<^verbatim>\<open>_setupUIPosition\<close>;
      \<open>None\<close> when the retries are exhausted or the promise is rejected\<close>
  "containerFound w containerEl found st =
     (case found of
        None \<Rightarrow> onComplete w containerEl False st
      | Some info \<Rightarrow>
          (case (if ci_mode info = VUE_NODES
                 then applyVueNodesPositioning w containerEl info st
                 else applyLitegraphPositioning w containerEl info st) of
             (Some err, st1) \<Rightarrow> onComplete w containerEl False st1
           | (None, st1) \<Rightarrow>
               onComplete w containerEl True
                 (updW w (\<lambda>x. x\<lparr>renderMode := Some (ci_mode info)\<rparr>) st1)))"

section \<open>Creating an assistant\<close>

definition blankEl :: dom_el where
  "blankEl = \<lparr>paMounted = False, paWidgetKey = None, paBound = False, paUniqueId = None,
     inBody = False, inNode = None, parentEl = None, hosted = [], destroyed = False,
     el_kind = OtherElement, el_value = [], el_events = [], listeners = [],
     observers = []\<rparr>"

definition createAssistantUI :: "wid \<Rightarrow> state \<Rightarrow> state" where
  \<comment> \<open>renders the container into a new element and starts the search for the mount
      container; the callback runs later, see \<open>containerFound\<close>\<close>
  "createAssistantUI w st =
     (let ce = nextEl st;
          st1 = st\<lparr>els := (els st)(ce := blankEl), nextEl := Suc ce\<rparr>
      in updW w (\<lambda>x. x\<lparr>container := Some ce, element := Some ce\<rparr>) st1)"

text \<open>
  In \<^verbatim>\<open>_setupUIPosition\<close> the getter \<^verbatim>\<open>widget.node\<close> falls back to the node the object
  was created for, so during \<^verbatim>\<open>createAssistant\<close> it is never null and the callback is
  never run synchronously: \<^verbatim>\<open>addInstance\<close> always precedes the callback.
\<close>

definition widgetKeyFor :: "state \<Rightarrow> node \<Rightarrow> string option \<Rightarrow> string option \<Rightarrow> string" where
  \<comment> \<open>\<^verbatim>\<open>assistantKey || this._getAssistantKey(node, inputId)\<close>\<close>
  "widgetKeyFor st node inpId assistantKey =
     (if truthy assistantKey then render assistantKey
      else getAssistantKey (appGraph st) node inpId)"

definition createAssistant ::
  "node \<Rightarrow> string option \<Rightarrow> input_widget \<Rightarrow> string option \<Rightarrow> state \<Rightarrow> wid option \<times> state" where
  "createAssistant node inpId inputWidget assistantKey st =
     (if \<not> featuresEnabled st \<or> \<not> truthy inpId then (None, st)
      else if \<not> w_valid inputWidget then (None, st)
      else if elOf inputWidget = None \<and> \<not> vueNodesMode st then (None, st)
      else
        (let key = widgetKeyFor st node inpId assistantKey
         in if hasInstance st key then (getInstance st key, st)
            else
              (let w = nextWid st;
                   obj = \<lparr>nodeId = Some (n_id node), inputId = inpId, widgetKey = Some key,
                           text_element = elOf inputWidget, inputEl = elOf inputWidget,
                           element = None, container = None, isDestroyed = False,
                           isMounting = True, inputEventsBound = False,
                           undoStateInitialized = False, eventCleanupFunctions = [],
                           renderMode = None, valueProp = None\<rparr>;
                   st1 = st\<lparr>heap := (heap st)(w := obj), nextWid := Suc w,
                            inputWidgetMap := AList.update key w (inputWidgetMap st)\<rparr>;
                   st2 = addInstance key w (createAssistantUI w st1);
                   st3 = (if elOf inputWidget \<noteq> None
                          then initializeInputElBindings w inputWidget node inpId st2 else st2)
               in (Some w, st3))))"

definition isMarkdownNode :: "node \<Rightarrow> bool" where
  "isMarkdownNode node = (n_markdown node \<or> n_subgraphWord node)"

definition isSubgraphNode :: "node \<Rightarrow> bool" where
  "isSubgraphNode node = n_uuid node"

definition isValidNode :: "bool \<Rightarrow> node \<Rightarrow> bool" where
  "isValidNode isVueMode node =
     (if n_id node = ''-1'' then False
      else if isVueMode \<and> (n_markdown node \<or> n_uuid node \<or> n_subgraphType node) then True
      else n_widgets node \<noteq> None)"

definition setupNodeAssistant ::
  "node \<Rightarrow> input_widget \<Rightarrow> string option \<Rightarrow> state \<Rightarrow> wid option \<times> state" where
  "setupNodeAssistant node inputWidget assistantKey st =
     (let inpId = js_or (js_or (w_name inputWidget) (w_id inputWidget)) (Some (rand st));
          processedWidget =
            (if isMarkdownNode node
             then inputWidget\<lparr>w_inputEl :=
                    (case w_element inputWidget of Some e \<Rightarrow> Some e | None \<Rightarrow> w_inputEl inputWidget)\<rparr>
             else inputWidget)
      in createAssistant node inpId processedWidget assistantKey st)"

section \<open>Scanning a node\<close>

definition uiPresent :: "state \<Rightarrow> node \<Rightarrow> elem option \<Rightarrow> bool" where
  \<comment> \<open>\<^verbatim>\<open>isUIPresent\<close>: an assistant root is inside what the element it was appended to is
      inside\<close>
  "uiPresent st node uio =
     (case uio of None \<Rightarrow> False
      | Some ui \<Rightarrow>
          (case parentEl (els st ui) of None \<Rightarrow> False
           | Some c \<Rightarrow>
               if svcVueMode st then inNode (els st c) = Some (n_id node)
               else inBody (els st c)))"

definition createGuarded :: "node \<Rightarrow> input_widget \<Rightarrow> string \<Rightarrow> state \<Rightarrow> state" where
  \<comment> \<open>lines 828 to 843\<close>
  "createGuarded node inputWidget assistantKey st =
     (if \<not> featuresEnabled st then st
      else if (case elOf inputWidget of Some e \<Rightarrow> paMounted (els st e) | None \<Rightarrow> False) then st
      else snd (setupNodeAssistant node inputWidget (Some assistantKey) st))"

definition setupInput ::
  "node \<Rightarrow> input_widget list \<Rightarrow> input_widget \<Rightarrow> state \<Rightarrow> error option \<times> state" where
  \<comment> \<open>the body of the loop of \<^verbatim>\<open>checkAndSetupNode\<close>, lines 767 to 844\<close>
  "setupInput node validInputs inputWidget st =
     (case resolveKey (appGraph st) (els st) node validInputs inputWidget of
        Inl err \<Rightarrow> (Some err, st)
      | Inr assistantKey \<Rightarrow>
          (case getInstance st assistantKey of
             None \<Rightarrow> (None, createGuarded node inputWidget assistantKey st)
           | Some w \<Rightarrow>
               (let instanceInputEl = text_element (heap st w);
                    instanceUIEl = element (heap st w);
                    isUIPresent = uiPresent st node instanceUIEl
                in if instanceUIEl = None \<or> (\<not> isUIPresent \<and> \<not> isMounting (heap st w))
                   then (None, createGuarded node inputWidget assistantKey
                                 (cleanup (Some assistantKey) False st))
                   else if \<not> isUIPresent \<and> isMounting (heap st w) then (None, st)
                   else if instanceInputEl \<noteq> None \<and> w_inputEl inputWidget \<noteq> None \<and>
                           instanceInputEl \<noteq> w_inputEl inputWidget then
                     (if \<not> (case instanceInputEl of Some e \<Rightarrow> inBody (els st e) | None \<Rightarrow> False)
                      then (None, createGuarded node inputWidget assistantKey
                                    (cleanup (Some (n_id node)) False st))
                      else (None, st))
                   else (None, st))))"

fun scanInputs ::
  "node \<Rightarrow> input_widget list \<Rightarrow> input_widget list \<Rightarrow> state \<Rightarrow> error option \<times> state" where
  "scanInputs node validInputs [] st = (None, st)"
| "scanInputs node validInputs (inputWidget # rest) st =
     (case setupInput node validInputs inputWidget st of
        (Some err, st1) \<Rightarrow> (Some err, st1)
      | (None, st1) \<Rightarrow> scanInputs node validInputs rest st1)"

definition mountingEntry :: "state \<Rightarrow> string \<Rightarrow> bool" where
  \<comment> \<open>the key has a registered candidate that is still mounting: its root element exists
      and is not yet in the DOM\<close>
  "mountingEntry st key =
     (case getInstance st key of
        None \<Rightarrow> False
      | Some w \<Rightarrow>
          w < nextWid st \<and> isMounting (heap st w) \<and>
          (case element (heap st w) of
             None \<Rightarrow> False
           | Some ui \<Rightarrow> parentEl (els st ui) = None))"

record dom_view =
  dv_nodeContainer :: bool
  dv_primeTextareas :: "elem list"
  dv_textareas :: "elem list"
  dv_editor :: "elem option"
  dv_valid :: bool

text \<open>
  \<open>dom_view\<close> is what the DOM queries of \<^verbatim>\<open>_handleVueDomScanNode\<close> return when it runs:
  whether the node container exists, the \<^verbatim>\<open>textarea.p-textarea\<close> and \<^verbatim>\<open>textarea\<close>
  elements under it and the first rich-text editor; \<open>dv_valid\<close> is the answer of
  \<^verbatim>\<open>UIToolkit.isValidInput\<close> for the virtual widget built around such an element.
\<close>

fun showNat :: "nat \<Rightarrow> string" where
  "showNat n = (if n < 10 then [char_of (48 + n)]
                else showNat (n div 10) @ [char_of (48 + n mod 10)])"

definition mountDomAssistant :: "dom_view \<Rightarrow> node \<Rightarrow> elem \<Rightarrow> string \<Rightarrow> state \<Rightarrow> state" where
  "mountDomAssistant view node el inpId st =
     (let assistantKey = getAssistantKey (appGraph st) node (Some inpId);
          create = (\<lambda>s. if paMounted (els s el) then s
                        else snd (createAssistant node (Some inpId)
                                    \<lparr>w_name = Some inpId, w_id = Some inpId, w_inputEl = Some el,
                                      w_element = Some el, w_valid = dv_valid view\<rparr>
                                    (Some assistantKey) s))
      in case getInstance st assistantKey of
           None \<Rightarrow> create st
         | Some w \<Rightarrow>
             if element (heap st w) \<noteq> None \<and> uiPresent st node (element (heap st w)) then st
             else create (cleanup (Some (n_id node)) False st))"

fun mountAll :: "dom_view \<Rightarrow> node \<Rightarrow> nat \<Rightarrow> nat \<Rightarrow> elem list \<Rightarrow> state \<Rightarrow> state" where
  \<comment> \<open>the loop of lines 886 to 890, from index \<open>i\<close>, over \<open>n\<close> elements in all\<close>
  "mountAll view node n i [] st = st"
| "mountAll view node n i (el # rest) st =
     mountAll view node n (Suc i) rest
       (mountDomAssistant view node el
          (if n = 1 then ''text'' else ''input_'' @ showNat i) st)"

definition handleVueDomScanNode :: "dom_view \<Rightarrow> node \<Rightarrow> state \<Rightarrow> state" where
  \<comment> \<open>\<^verbatim>\<open>_retryDomScan\<close> only starts a search whose continuation runs later\<close>
  "handleVueDomScanNode view node st =
     (if \<not> isMarkdownNode node \<and> \<not> isSubgraphNode node then st
      else if \<not> dv_nodeContainer view then st
      else
        (let textareas = (if dv_primeTextareas view \<noteq> [] then dv_primeTextareas view
                          else dv_textareas view)
         in if textareas = [] then
              (case dv_editor view of None \<Rightarrow> st
               | Some ed \<Rightarrow> mountDomAssistant view node ed ''text'' st)
            else mountAll view node (length textareas) 0 textareas st))"

definition checkAndSetupNode :: "dom_view \<Rightarrow> node \<Rightarrow> state \<Rightarrow> error option \<times> state" where
  "checkAndSetupNode view node st =
     (if \<not> featuresEnabled st then (None, st)
      else
        (case n_widgets node of
           None \<Rightarrow>
             (if vueNodesMode st \<and> isValidNode (vueNodesMode st) node
              then (None, handleVueDomScanNode view node st) else (None, st))
         | Some ws \<Rightarrow>
             if \<not> isValidNode (vueNodesMode st) node then (None, st)
             else
               (let validInputs = filter w_valid ws
                in if validInputs = [] then
                     (if vueNodesMode st then (None, handleVueDomScanNode view node st)
                      else (None, st))
                   else scanInputs node validInputs validInputs st)))"

section \<open>Writing the bound input\<close>

definition syncValueProp :: "wid \<Rightarrow> jstring \<Rightarrow> state \<Rightarrow> state" where
  \<comment> \<open>\<^verbatim>\<open>if (widget.value !== undefined) widget.value = content\<close>; the copy kept in the
      host's own widget objects is not modelled\<close>
  "syncValueProp w content st =
     (if valueProp (heap st w) \<noteq> None then updW w (\<lambda>x. x\<lparr>valueProp := Some content\<rparr>) st
      else st)"

definition dispatchInputChange :: "elem \<Rightarrow> state \<Rightarrow> state" where
  "dispatchInputChange e st =
     updEl e (\<lambda>d. d\<lparr>el_events := el_events d @ [''input'', ''change'']\<rparr>) st"

definition setInputValue :: "wid \<Rightarrow> jstring \<Rightarrow> bool \<Rightarrow> state \<Rightarrow> bool \<times> state" where
  "setInputValue w content silent st =
     (case inputEl (heap st w) of
        None \<Rightarrow> (False, st)
      | Some e \<Rightarrow>
          (if el_kind (els st e) = OtherElement then
             (if valueProp (heap st w) \<noteq> None
              then (True, updW w (\<lambda>x. x\<lparr>valueProp := Some content\<rparr>) st)
              else (False, st))
           else
             (let st1 = syncValueProp w content
                          (updEl e (\<lambda>d. d\<lparr>el_value := content\<rparr>) st)
              in (True, if silent then st1 else dispatchInputChange e st1))))"

definition updateInputWithHighlight :: "wid \<Rightarrow> jstring \<Rightarrow> state \<Rightarrow> state" where
  "updateInputWithHighlight w content st = snd (setInputValue w content False st)"

fun streamChunks :: "wid \<Rightarrow> jstring \<Rightarrow> jstring list \<Rightarrow> state \<Rightarrow> jstring \<times> state" where
  \<comment> \<open>the streaming callback, run once for each chunk: \<open>streamContent += chunk\<close>, then a
      silent write\<close>
  "streamChunks w streamContent [] st = (streamContent, st)"
| "streamChunks w streamContent (chunk # rest) st =
     streamChunks w (streamContent @ chunk) rest
       (snd (setInputValue w (streamContent @ chunk) True st))"

section \<open>The translate cache\<close>

text \<open>
  Modelled from the spec: \<^verbatim>\<open>TranslateCacheService\<close> (services/cache.js) is not among the
  sources. The cache holds the mapping from source text to translated text and its
  inverse, both keyed by the exact text; a new translation of the same source overwrites.
  A query answers with the translation when the text is a cached source, and with the
  source when the text is a cached translation.
\<close>

datatype cache_hit = SourceHit jstring | TranslatedHit jstring

definition queryTranslateCache :: "translate_cache \<Rightarrow> jstring \<Rightarrow> cache_hit option" where
  "queryTranslateCache c text =
     (case map_of (tc_source c) text of
        Some t \<Rightarrow> Some (SourceHit t)
      | None \<Rightarrow>
          (case map_of (tc_translated c) text of
             Some src \<Rightarrow> Some (TranslatedHit src)
           | None \<Rightarrow> None))"

definition addTranslateCache :: "jstring \<Rightarrow> jstring \<Rightarrow> state \<Rightarrow> state" where
  "addTranslateCache src tr st =
     st\<lparr>translateCache :=
          \<lparr>tc_source = AList.update src tr (tc_source (translateCache st)),
           tc_translated = AList.update tr src (tc_translated (translateCache st))\<rparr>\<rparr>"

section \<open>The expand and translate operations\<close>

record api_result =
  r_success :: bool
  r_data :: "jstring option"
  r_error :: "string option"

datatype api_outcome = Rejected string | Resolved "api_result option"

datatype config_outcome = ConfigRejected string | ConfigNotOk | ConfigProvider string

record network =
  net_config :: config_outcome
  net_chunks :: "jstring list"
  net_outcome :: api_outcome

record helpers =
  isMarkdownLiteGraph :: bool
  md_texts :: "jstring \<Rightarrow> jstring list"
  md_restore :: "jstring \<Rightarrow> jstring list \<Rightarrow> jstring"
  formatTranslatedText :: "jstring \<Rightarrow> jstring"
  isMixedChineseEnglish :: "jstring \<Rightarrow> bool"

text \<open>
  \<open>network\<close> is what the backend does during one operation: the answer to the request
  for the translate configuration, the chunks a streaming call hands to its callback, and
  how the call settles. \<open>helpers\<close> are the collaborators the translate handler calls:
  whether the assistant sits on a Markdown note in a LiteGraph canvas, the texts that
  \<^verbatim>\<open>MarkdownNoteTranslate.protectAndExtract\<close> extracts from the input, the HTML that
  \<^verbatim>\<open>restoreWithTranslations\<close> rebuilds for that input from translated segments, and the
  two functions of \<^verbatim>\<open>PromptFormatter\<close>. The handlers are the functions passed to
  \<^verbatim>\<open>UIToolkit.handleAsyncButtonOperation\<close>; \<open>inputValue\<close> is what \<^verbatim>\<open>getInputValue\<close>
  returned for the assistant. \<open>r_data\<close> is the field of the result that holds the text
  (\<^verbatim>\<open>result.data?.expanded\<close>, \<^verbatim>\<open>result.data?.translated\<close>).
\<close>

datatype failure =
    EmptyInput
  | TranslateFailed string
  | EmptyResult
  | ProviderError "string option"

datatype tip = TipTranslation | TipOriginal | TipTranslateDone | TipExpandDone

record op_ok =
  useCache :: bool
  tipMessage :: tip

definition historyEntry :: "wid \<Rightarrow> jstring \<Rightarrow> string \<Rightarrow> state \<Rightarrow> history_item" where
  "historyEntry w content op st =
     \<lparr>h_node = nodeId (heap st w), h_input = inputId (heap st w), h_content = content,
      h_op = op\<rparr>"

definition js_join :: "jstring list \<Rightarrow> jstring" where
  \<comment> \<open>\<^verbatim>\<open>texts.join('\n')\<close>\<close>
  "js_join xs = (case xs of [] \<Rightarrow> [] | x # r \<Rightarrow> foldl (\<lambda>a b. a @ [0x0A] @ b) x r)"

definition expandWork :: "network \<Rightarrow> wid \<Rightarrow> jstring \<Rightarrow> state \<Rightarrow> (failure + op_ok) \<times> state" where
  \<comment> \<open>lines 1793 to 1884\<close>
  "expandWork net w inputValue st =
     (if is_blank inputValue then (Inl EmptyInput, st)
      else
        (let streamed = (if enableStreaming st
                         then streamChunks w [] (net_chunks net)
                                (st\<lparr>requests := requests st @ [LlmExpandStream inputValue]\<rparr>)
                         else ([], st\<lparr>requests := requests st @ [LlmExpand inputValue]\<rparr>));
             streamContent = fst streamed;
             st1 = snd streamed
         in case net_outcome net of
              Rejected msg \<Rightarrow> (Inl (ProviderError (Some msg)), st1)
            | Resolved None \<Rightarrow>
                (Inl (ProviderError None), st1)
            | Resolved (Some result) \<Rightarrow>
                (let finalContent = (if streamContent \<noteq> [] then streamContent
                                     else orEmpty (r_data result))
                 in if r_success result \<and> finalContent \<noteq> [] then
                      (let st2 = updateInputWithHighlight w finalContent st1;
                           st3 = addHistory (historyEntry w finalContent ''expand'' st2) st2
                       in (Inr \<lparr>useCache = False, tipMessage = TipExpandDone\<rparr>, st3))
                    else (Inl (ProviderError (r_error result)), st1))))"

definition callTranslate :: "network \<Rightarrow> wid \<Rightarrow> jstring \<Rightarrow> state \<Rightarrow> jstring \<times> state" where
  \<comment> \<open>the choice of the provider, lines 2231 to 2267; returns the streamed content\<close>
  "callTranslate net w contentToTranslate st =
     (if net_config net = ConfigProvider ''google''
      then ([], st\<lparr>requests := requests st @ [GoogleTranslate contentToTranslate]\<rparr>)
      else if net_config net = ConfigProvider ''baidu''
      then ([], st\<lparr>requests := requests st @ [BaiduTranslate contentToTranslate]\<rparr>)
      else if enableStreaming st
      then streamChunks w [] (net_chunks net)
             (st\<lparr>requests := requests st @ [LlmTranslateStream contentToTranslate]\<rparr>)
      else ([], st\<lparr>requests := requests st @ [LlmTranslate contentToTranslate]\<rparr>))"

definition contentToTranslate :: "helpers \<Rightarrow> jstring \<Rightarrow> jstring" where
  \<comment> \<open>lines 2112 to 2130: the texts extracted from a Markdown note, else the input\<close>
  "contentToTranslate hp inputValue =
     (if isMarkdownLiteGraph hp \<and> md_texts hp inputValue \<noteq> []
      then js_join (md_texts hp inputValue) else inputValue)"

definition restoreText :: "helpers \<Rightarrow> jstring \<Rightarrow> jstring \<Rightarrow> jstring" where
  \<comment> \<open>lines 2168 to 2172 and 2283 to 2287\<close>
  "restoreText hp inputValue t =
     (if isMarkdownLiteGraph hp then md_restore hp inputValue (split_on 0x0A t) else t)"

definition translateWork ::
  "helpers \<Rightarrow> network \<Rightarrow> wid \<Rightarrow> jstring \<Rightarrow> state \<Rightarrow> (failure + op_ok) \<times> state" where
  \<comment> \<open>lines 2095 to 2336\<close>
  "translateWork hp net w inputValue st =
     (if is_blank inputValue then (Inl EmptyInput, st)
      else
        (let content = contentToTranslate hp inputValue;
             restore = restoreText hp inputValue
         in if is_blank content then (Inl EmptyInput, st)
            else
              (case (if useTranslateCache st
                     then queryTranslateCache (translateCache st) content
                     else None) of
                 Some hit \<Rightarrow>
                   (let rawResultText = (case hit of SourceHit t \<Rightarrow> t | TranslatedHit src \<Rightarrow> src);
                        finalResultText = restore rawResultText;
                        st1 = updateInputWithHighlight w finalResultText st;
                        st2 = addHistory (historyEntry w finalResultText ''translate'' st1) st1
                    in (Inr \<lparr>useCache = True,
                              tipMessage = (case hit of SourceHit _ \<Rightarrow> TipTranslation
                                            | TranslatedHit _ \<Rightarrow> TipOriginal)\<rparr>, st2))
               | None \<Rightarrow>
                   (let st1 = st\<lparr>requests := requests st @ [ConfigFetch]\<rparr>
                    in case net_config net of
                         ConfigRejected msg \<Rightarrow> (Inl (TranslateFailed msg), st1)
                       | _ \<Rightarrow>
                           (let called = callTranslate net w content st1;
                                streamContent = fst called;
                                st2 = snd called
                            in case net_outcome net of
                                 Rejected msg \<Rightarrow> (Inl (TranslateFailed msg), st2)
                               | Resolved None \<Rightarrow> (Inl EmptyResult, st2)
                               | Resolved (Some result) \<Rightarrow>
                                   if r_success result then
                                     (let rawTranslated =
                                            (if streamContent \<noteq> [] then streamContent
                                             else orEmpty (r_data result));
                                          formattedText = formatTranslatedText hp rawTranslated;
                                          finalResultText = restore formattedText;
                                          st3 = addHistory
                                                  (historyEntry w finalResultText ''translate'' st2) st2;
                                          st4 = updateInputWithHighlight w finalResultText st3;
                                          st5 = (if useTranslateCache st4 \<and>
                                                    (\<not> isMixedChineseEnglish hp content \<or>
                                                     cacheMixedLangTranslation st4)
                                                 then addTranslateCache content formattedText st4
                                                 else st4)
                                      in (Inr \<lparr>useCache = False, tipMessage = TipTranslateDone\<rparr>, st5))
                                   else (Inl (ProviderError (r_error result)), st2))))))"

section \<open>Example states\<close>

definition st0 :: state where
  "st0 = \<lparr>instances = [], heap = (\<lambda>_. wiped), nextWid = 0, els = (\<lambda>_. blankEl),
     nextEl = 100, windowListeners = [], inputWidgetMap = [], history = [], historyLimit = 20,
     recorded = [], tagCache = [],
     translateCache = \<lparr>tc_source = [], tc_translated = []\<rparr>, requests = [],
     featuresEnabled = True, useTranslateCache = True, cacheMixedLangTranslation = False,
     enableStreaming = True, vueNodesMode = False, svcVueMode = False, switching = False,
     hasResizeObserver = True, appGraph = None, rand = ''r4nd0m'', logs = []\<rparr>"

definition textWidget :: "string \<Rightarrow> elem \<Rightarrow> input_widget" where
  "textWidget nm e = \<lparr>w_name = Some nm, w_id = None, w_inputEl = Some e, w_element = None,
     w_valid = True\<rparr>"

definition nodeWith :: "input_widget list \<Rightarrow> node" where
  "nodeWith ws = \<lparr>n_id = ''5'', n_graph = None, n_widgets = Some ws, n_markdown = False,
     n_subgraphWord = False, n_uuid = False, n_subgraphType = False\<rparr>"

definition noView :: dom_view where
  "noView = \<lparr>dv_nodeContainer = False, dv_primeTextareas = [], dv_textareas = [],
     dv_editor = None, dv_valid = False\<rparr>"

definition liveWidget :: "string \<Rightarrow> string \<Rightarrow> string \<Rightarrow> elem \<Rightarrow> elem \<Rightarrow> widget" where
  \<comment> \<open>a mounted assistant: node, input, key, input element, root element\<close>
  "liveWidget n i k e ui = \<lparr>nodeId = Some n, inputId = Some i, widgetKey = Some k,
     text_element = Some e, inputEl = Some e, element = Some ui, container = Some ui,
     isDestroyed = False, isMounting = False, inputEventsBound = True,
     undoStateInitialized = True,
     eventCleanupFunctions = [RemoveListener e ''blur'' 0, RemoveListener e ''input'' 0],
     renderMode = Some LITEGRAPH, valueProp = None\<rparr>"

definition hp0 :: helpers where
  \<comment> \<open>a plain text input: no Markdown handling, formatting is the identity, no text is
      of mixed language\<close>
  "hp0 = \<lparr>isMarkdownLiteGraph = False, md_texts = (\<lambda>_. []), md_restore = (\<lambda>x _. x),
     formatTranslatedText = (\<lambda>x. x), isMixedChineseEnglish = (\<lambda>_. False)\<rparr>"

definition stOp :: state where
  \<comment> \<open>one mounted assistant on a textarea that reads "a cat"\<close>
  "stOp = st0\<lparr>instances := [(''main_5_text'', 0)],
     heap := (\<lambda>_. wiped)(0 := liveWidget ''5'' ''text'' ''main_5_text'' 1 100),
     nextWid := 1,
     els := (\<lambda>_. blankEl)
       (1 := blankEl\<lparr>paMounted := True, paWidgetKey := Some ''main_5_text'', paBound := True,
                     inBody := True, el_kind := Textarea, el_value := lit ''a cat'',
                     listeners := [(''blur'', 0), (''input'', 0)]\<rparr>,
        50 := blankEl\<lparr>inBody := True, hosted := [100]\<rparr>,
        100 := blankEl\<lparr>parentEl := Some 50\<rparr>),
     nextEl := 101\<rparr>"

definition netStream :: network where
  \<comment> \<open>a language model that streams three chunks and then succeeds\<close>
  "netStream = \<lparr>net_config = ConfigNotOk, net_chunks = [lit ''a '', lit ''red '', lit ''cat''],
     net_outcome = Resolved (Some \<lparr>r_success = True, r_data = None, r_error = None\<rparr>)\<rparr>"

definition stCached :: state where
  "stCached = stOp\<lparr>translateCache :=
     \<lparr>tc_source = [(lit ''hello'', lit ''bonjour'')],
       tc_translated = [(lit ''bonjour'', lit ''hello'')]\<rparr>\<rparr>"


definition candidate :: "string \<Rightarrow> string \<Rightarrow> string \<Rightarrow> elem \<Rightarrow> elem \<Rightarrow> widget" where
  \<comment> \<open>a registered assistant whose mount is pending\<close>
  "candidate n i k e ui = (liveWidget n i k e ui)\<lparr>isMounting := True,
     inputEventsBound := False, eventCleanupFunctions := [], renderMode := None\<rparr>"

definition stRace :: state where
  \<comment> \<open>\<open>stOp\<close> with a second assistant, under another key, about to mount on the element
      that the first one has claimed\<close>
  "stRace = stOp\<lparr>instances := [(''main_5_text'', 0), (''main_5_prompt'', 1)],
     heap := (heap stOp)(1 := candidate ''5'' ''prompt'' ''main_5_prompt'' 1 101),
     nextWid := 2, nextEl := 102\<rparr>"

definition infoLg :: container_info where
  "infoLg = \<lparr>ci_container = Some 50, ci_textarea = Some 1, ci_nodeContainer = False,
     ci_nodeTextareas = [], ci_isNoteNode = False, ci_mode = LITEGRAPH\<rparr>"

definition infoVue :: container_info where
  "infoVue = infoLg\<lparr>ci_mode := VUE_NODES\<rparr>"

definition oneInput :: node where
  "oneInput = nodeWith [textWidget ''text'' 1]"

definition stMounting :: state where
  \<comment> \<open>after \<^verbatim>\<open>createAssistant\<close> for the input of \<open>oneInput\<close>, before the search for the
      mount container has settled\<close>
  "stMounting = snd (createAssistant oneInput (Some ''text'') (textWidget ''text'' 1) None st0)"

definition stDiscarded :: state where
  \<comment> \<open>the retries are exhausted\<close>
  "stDiscarded = containerFound 0 100 None stMounting"

definition stRetried :: state where
  \<comment> \<open>the next scan creates an assistant for the same input again\<close>
  "stRetried =
     snd (createAssistant oneInput (Some ''text'') (textWidget ''text'' 1) None stDiscarded)"

definition stReplaced :: state where
  \<comment> \<open>\<open>stOp\<close> after the host has replaced the textarea: the bound element has left the
      document, the assistant's root is still attached\<close>
  "stReplaced = stOp\<lparr>els := (els stOp)(1 := (els stOp 1)\<lparr>inBody := False\<rparr>)\<rparr>"

definition stPage :: state where
  \<comment> \<open>a page with a textarea that reads "a cat" and the element that hosts assistants\<close>
  "stPage = st0\<lparr>els := (\<lambda>_. blankEl)
     (1 := blankEl\<lparr>inBody := True, el_kind := Textarea, el_value := lit ''a cat''\<rparr>,
      50 := blankEl\<lparr>inBody := True\<rparr>)\<rparr>"

definition stMounted :: state where
  \<comment> \<open>the scan of \<open>oneInput\<close> on that page, and then the mount container is found\<close>
  "stMounted = containerFound 0 100 (Some infoLg) (snd (checkAndSetupNode noView oneInput stPage))"

definition stSwitching :: state where
  \<comment> \<open>the same while a workflow is being switched\<close>
  "stSwitching = stMounted\<lparr>switching := True\<rparr>"

definition inputEntry :: "string \<Rightarrow> history_item" where
  \<comment> \<open>an entry of the input "text" of node 5\<close>
  "inputEntry t = \<lparr>h_node = Some ''5'', h_input = Some ''text'', h_content = lit t,
     h_op = ''input''\<rparr>"





section \<open>Key resolution for inputs that share a name\<close>

text \<open>
  Claim C3. Key resolution is stable: repeated scans compute the same key for the same
  node and input, and for inputs that share a name the scan generates an identifier,
  stores it on the element and reads it back on later scans. On the code the second part
  fails: for a node with two valid inputs named "text", neither element carrying an
  identifier yet, the first scan stops with a ReferenceError for \<^verbatim>\<open>graphId\<close> at the first
  input, before anything is stored or created.
\<close>

theorem duplicate_names_raise:
  "checkAndSetupNode noView (nodeWith [textWidget ''text'' 1, textWidget ''text'' 2]) st0
     = (Some (ReferenceError ''graphId''), st0)"
  by (simp add: checkAndSetupNode_def st0_def nodeWith_def textWidget_def isValidNode_def
        setupInput_def resolveKey_def inputIdOf_def js_or_def truthy_def elOf_def
        blankEl_def Let_def)

section \<open>Frame lemmas\<close>

lemma frame_updW [simp]:
  "history (updW w f st) = history st" "tagCache (updW w f st) = tagCache st"
  "instances (updW w f st) = instances st" "els (updW w f st) = els st"
  "heap (updW w f st) = (heap st)(w := f (heap st w))"
  by (simp_all add: updW_def)

lemma frame_updEl [simp]:
  "history (updEl e f st) = history st" "tagCache (updEl e f st) = tagCache st"
  "instances (updEl e f st) = instances st" "heap (updEl e f st) = heap st"
  "els (updEl e f st) = (els st)(e := f (els st e))"
  by (simp_all add: updEl_def)

lemma frame_addHistory [simp]:
  "translateCache (addHistory i st) = translateCache st"
  "requests (addHistory i st) = requests st"
  "useTranslateCache (addHistory i st) = useTranslateCache st"
  "cacheMixedLangTranslation (addHistory i st) = cacheMixedLangTranslation st"
  "history (addHistory i st) = recordInput (historyLimit st) i (history st)"
  "historyLimit (addHistory i st) = historyLimit st"
  "recorded (addHistory i st) = recorded st @ [i]"
  "els (addHistory i st) = els st" "heap (addHistory i st) = heap st"
  "instances (addHistory i st) = instances st"
  "featuresEnabled (addHistory i st) = featuresEnabled st"
  "vueNodesMode (addHistory i st) = vueNodesMode st"
  "nextWid (addHistory i st) = nextWid st"
  "hasResizeObserver (addHistory i st) = hasResizeObserver st"
  "inputWidgetMap (addHistory i st) = inputWidgetMap st"
  "appGraph (addHistory i st) = appGraph st"
  "svcVueMode (addHistory i st) = svcVueMode st"
  "nextEl (addHistory i st) = nextEl st"
  "rand (addHistory i st) = rand st"
  by (simp_all add: addHistory_def)

lemma frame2_updW [simp]:
  "windowListeners (updW w f st) = windowListeners st"
  "inputWidgetMap (updW w f st) = inputWidgetMap st"
  "featuresEnabled (updW w f st) = featuresEnabled st"
  "vueNodesMode (updW w f st) = vueNodesMode st"
  "nextWid (updW w f st) = nextWid st"
  "hasResizeObserver (updW w f st) = hasResizeObserver st"
  "appGraph (updW w f st) = appGraph st"
  "svcVueMode (updW w f st) = svcVueMode st"
  "nextEl (updW w f st) = nextEl st"
  "rand (updW w f st) = rand st"
  "historyLimit (updW w f st) = historyLimit st"
  "recorded (updW w f st) = recorded st"
  by (simp_all add: updW_def)

lemma frame2_updEl [simp]:
  "windowListeners (updEl e f st) = windowListeners st"
  "inputWidgetMap (updEl e f st) = inputWidgetMap st"
  "featuresEnabled (updEl e f st) = featuresEnabled st"
  "vueNodesMode (updEl e f st) = vueNodesMode st"
  "nextWid (updEl e f st) = nextWid st"
  "hasResizeObserver (updEl e f st) = hasResizeObserver st"
  "appGraph (updEl e f st) = appGraph st"
  "svcVueMode (updEl e f st) = svcVueMode st"
  "nextEl (updEl e f st) = nextEl st"
  "rand (updEl e f st) = rand st"
  "historyLimit (updEl e f st) = historyLimit st"
  "recorded (updEl e f st) = recorded st"
  by (simp_all add: updEl_def)

text \<open>
  The history service on three small stores: an entry whose text is pending is not
  appended again, an entry whose text is that of an older entry is appended, and the oldest
  entry of the input is evicted when the bound is passed; entries of other inputs do not
  count.
\<close>

lemma recordInput_examples:
  "recordInput 5 (inputEntry ''b'') [inputEntry ''a'', inputEntry ''b''] =
     [inputEntry ''a'', inputEntry ''b'']"
  "recordInput 5 (inputEntry ''a'') [inputEntry ''a'', inputEntry ''b''] =
     [inputEntry ''a'', inputEntry ''b'', inputEntry ''a'']"
  "recordInput 2 (inputEntry ''c'') [inputEntry ''a'', inputEntry ''b''] =
     [inputEntry ''b'', inputEntry ''c'']"
  "recordInput 2 (inputEntry ''c'')
     [(inputEntry ''x'')\<lparr>h_input := Some ''other''\<rparr>, inputEntry ''a'', inputEntry ''b''] =
     [(inputEntry ''x'')\<lparr>h_input := Some ''other''\<rparr>, inputEntry ''b'', inputEntry ''c'']"
  by code_simp+

section \<open>What teardown and cleanup change\<close>

lemma logs_updW [simp]: "logs (updW w f st) = logs st" by (simp add: updW_def)
lemma logs_updEl [simp]: "logs (updEl e f st) = logs st" by (simp add: updEl_def)
lemma logs_runCleanup [simp]: "logs (runCleanup c st) = logs st"
  by (simp add: runCleanup_def split: cleanup_fn.splits)
lemma logs_fold_runCleanup [simp]: "logs (fold runCleanup cs st) = logs st"
  by (induction cs arbitrary: st) simp_all
lemma logs_resetBound [simp]: "logs (resetBound eo st) = logs st"
  by (simp add: resetBound_def split: option.splits)
lemma logs_resetMounted [simp]: "logs (resetMounted eo st) = logs st"
  by (simp add: resetMounted_def split: option.splits)
lemma logs_detach [simp]: "logs (detach ui st) = logs st"
  by (simp add: detach_def split: option.splits)
lemma logs_deleteInstance [simp]: "logs (deleteInstance k st) = logs st"
  by (simp add: deleteInstance_def)
lemma logs_cleanupInstance [simp]: "logs (cleanupInstance w k b st) = logs st"
  by (simp add: cleanupInstance_def Let_def split: option.splits)
lemma logs_cleanupKey [simp]: "logs (cleanupKey b k st) = logs st"
  by (simp add: cleanupKey_def split: option.splits)
lemma logs_fold_cleanupKey [simp]: "logs (fold (cleanupKey b) ks st) = logs st"
  by (induction ks arbitrary: st) simp_all
lemma logs_cleanupAndDelete [simp]: "logs (cleanupAndDelete k st) = logs st"
  by (simp add: cleanupAndDelete_def split: option.splits)
lemma logs_fold_cleanupAndDelete [simp]: "logs (fold cleanupAndDelete ks st) = logs st"
  by (induction ks arbitrary: st) simp_all
lemma logs_clearTagsOf [simp]: "logs (fst (clearTagsOf n k acc)) = logs (fst acc)"
  by (cases acc) (simp add: clearTagsOf_def clearCache_def Let_def split: option.splits)
lemma logs_fold_clearTagsOf [simp]: "logs (fst (fold (clearTagsOf n) ks acc)) = logs (fst acc)"
  by (induction ks arbitrary: acc) simp_all
lemma logs_cleanupAll [simp]: "logs (fst (cleanupAll kw acc)) = logs (fst acc)"
  by (cases acc) (simp add: cleanupAll_def Let_def)
lemma logs_fold_cleanupAll [simp]: "logs (fst (fold cleanupAll kws acc)) = logs (fst acc)"
  by (induction kws arbitrary: acc) simp_all

lemma logs_restore: "logs s = l \<Longrightarrow> (s\<lparr>logs := logs s @ x\<rparr>)\<lparr>logs := l\<rparr> = s"
  by simp

lemma frame_runCleanup [simp]:
  "history (runCleanup c st) = history st" "tagCache (runCleanup c st) = tagCache st"
  "instances (runCleanup c st) = instances st" "heap (runCleanup c st) = heap st"
  "parentEl (els (runCleanup c st) x) = parentEl (els st x)"
  by (simp_all add: runCleanup_def split: cleanup_fn.splits)

lemma frame_fold_runCleanup [simp]:
  "history (fold runCleanup cs st) = history st"
  "tagCache (fold runCleanup cs st) = tagCache st"
  "instances (fold runCleanup cs st) = instances st"
  "heap (fold runCleanup cs st) = heap st"
  "parentEl (els (fold runCleanup cs st) x) = parentEl (els st x)"
  by (induction cs arbitrary: st) simp_all

lemma frame_resetBound [simp]:
  "history (resetBound eo st) = history st" "tagCache (resetBound eo st) = tagCache st"
  "instances (resetBound eo st) = instances st" "heap (resetBound eo st) = heap st"
  "parentEl (els (resetBound eo st) x) = parentEl (els st x)"
  by (simp_all add: resetBound_def split: option.splits)

lemma frame_resetMounted [simp]:
  "history (resetMounted eo st) = history st" "tagCache (resetMounted eo st) = tagCache st"
  "instances (resetMounted eo st) = instances st" "heap (resetMounted eo st) = heap st"
  "parentEl (els (resetMounted eo st) x) = parentEl (els st x)"
  by (simp_all add: resetMounted_def split: option.splits)

lemma frame_detach [simp]:
  "history (detach ui st) = history st" "tagCache (detach ui st) = tagCache st"
  "instances (detach ui st) = instances st" "heap (detach ui st) = heap st"
  by (simp_all add: detach_def split: option.splits)

lemma parentEl_detach:
  "parentEl (els (detach ui st) x) = (if x = ui then None else parentEl (els st x))"
  by (simp add: detach_def split: option.splits)

lemma frame_cleanupInstance [simp]:
  "history (cleanupInstance w k b st) = history st"
  "tagCache (cleanupInstance w k b st) = tagCache st"
  "heap (cleanupInstance w k b st) = (heap st)(w := wiped)"
  by (simp_all add: cleanupInstance_def Let_def deleteInstance_def split: option.splits)

lemma instances_cleanupInstance:
  "instances (cleanupInstance w k b st) =
     (if \<not> b \<and> k \<noteq> [] then AList.delete k (instances st) else instances st)"
  by (simp add: cleanupInstance_def Let_def deleteInstance_def split: option.splits)

lemma parentEl_cleanupInstance:
  "parentEl (els (cleanupInstance w k b st) x) =
     (if element (heap st w) = Some x then None else parentEl (els st x))"
  by (simp add: cleanupInstance_def Let_def deleteInstance_def parentEl_detach split: option.splits)

lemma frame_cleanupKey [simp]:
  "history (cleanupKey b k st) = history st" "tagCache (cleanupKey b k st) = tagCache st"
  by (simp_all add: cleanupKey_def split: option.splits)

lemma frame_fold_cleanupKey [simp]:
  "history (fold (cleanupKey b) ks st) = history st"
  "tagCache (fold (cleanupKey b) ks st) = tagCache st"
  by (induction ks arbitrary: st) simp_all

lemma instances_cleanupKey:
  "instances (cleanupKey False k st) =
     (if k \<noteq> [] then AList.delete k (instances st) else instances st)"
proof (cases "map_of (instances st) k")
  case None
  then have "k \<notin> fst ` set (instances st)" by (simp add: map_of_eq_None_iff)
  then have "AList.delete k (instances st) = instances st" by (rule AList.delete_id)
  with None show ?thesis by (simp add: cleanupKey_def getInstance_def)
next
  case (Some w)
  then show ?thesis
    by (simp add: cleanupKey_def getInstance_def instances_cleanupInstance)
qed

lemma delete_as_filter: "AList.delete k xs = filter (\<lambda>p. fst p \<noteq> k) xs"
  by (induction xs) auto

lemma instances_fold_cleanupKey:
  "[] \<notin> set ks \<Longrightarrow>
   instances (fold (cleanupKey False) ks st) = filter (\<lambda>p. fst p \<notin> set ks) (instances st)"
proof (induction ks arbitrary: st)
  case Nil
  then show ?case by simp
next
  case (Cons k ks)
  then have k: "k \<noteq> []" and ks: "[] \<notin> set ks" by auto
  have "instances (fold (cleanupKey False) (k # ks) st) =
        filter (\<lambda>p. fst p \<notin> set ks) (filter (\<lambda>p. fst p \<noteq> k) (instances st))"
    using Cons.IH [OF ks, of "cleanupKey False k st"]
    by (simp add: instances_cleanupKey k delete_as_filter)
  also have "\<dots> = filter (\<lambda>p. fst p \<notin> set (k # ks)) (instances st)"
    by (simp add: conj_commute)
  finally show ?case .
qed

lemma switchingMatch_nonempty: "switchingMatch (Some n) k \<Longrightarrow> k \<noteq> []"
  by (auto simp: switchingMatch_def startsWith_def)

lemma heap_cleanupKey:
  "heap (cleanupKey b k s) =
     (case map_of (instances s) k of None \<Rightarrow> heap s | Some w \<Rightarrow> (heap s)(w := wiped))"
  by (simp add: cleanupKey_def getInstance_def split: option.splits)

lemma parentEl_cleanupKey:
  "parentEl (els (cleanupKey b k s) x) =
     (case map_of (instances s) k of None \<Rightarrow> parentEl (els s x)
      | Some w \<Rightarrow> if element (heap s w) = Some x then None else parentEl (els s x))"
  by (simp add: cleanupKey_def getInstance_def parentEl_cleanupInstance split: option.splits)

lemma wiped_stays:
  "heap st w = wiped \<Longrightarrow> heap (fold (cleanupKey b) ks st) w = wiped"
  by (induction ks arbitrary: st) (simp_all add: heap_cleanupKey split: option.splits)

lemma detached_stays:
  "parentEl (els st x) = None \<Longrightarrow> parentEl (els (fold (cleanupKey b) ks st) x) = None"
  by (induction ks arbitrary: st) (simp_all add: parentEl_cleanupKey split: option.splits)

lemma torn_down_fold:
  "k \<in> set ks \<Longrightarrow> map_of (instances st) k = Some w \<Longrightarrow>
   heap (fold (cleanupKey False) ks st) w = wiped \<and>
   (\<forall>ui. element (heap st w) = Some ui \<longrightarrow>
      parentEl (els (fold (cleanupKey False) ks st) ui) = None)"
proof (induction ks arbitrary: st)
  case Nil
  then show ?case by simp
next
  case (Cons a r)
  let ?s1 = "cleanupKey False a st"
  show ?case
  proof (cases "k = a")
    case True
    with Cons.prems have h: "heap ?s1 w = wiped"
      and p: "\<And>ui. element (heap st w) = Some ui \<Longrightarrow> parentEl (els ?s1 ui) = None"
      by (simp_all add: heap_cleanupKey parentEl_cleanupKey)
    show ?thesis using wiped_stays [OF h] detached_stays [OF p] by simp
  next
    case False
    with Cons.prems have kr: "k \<in> set r" by simp
    from False Cons.prems have m: "map_of (instances ?s1) k = Some w"
      by (simp add: instances_cleanupKey)
    note IH = Cons.IH [OF kr m]
    have "heap ?s1 w = heap st w \<or>
          (heap ?s1 w = wiped \<and> (\<forall>ui. element (heap st w) = Some ui \<longrightarrow> parentEl (els ?s1 ui) = None))"
      by (auto simp: heap_cleanupKey parentEl_cleanupKey split: option.splits)
    then show ?thesis
    proof
      assume "heap ?s1 w = heap st w"
      with IH show ?thesis by simp
    next
      assume a: "heap ?s1 w = wiped \<and> (\<forall>ui. element (heap st w) = Some ui \<longrightarrow> parentEl (els ?s1 ui) = None)"
      then show ?thesis using IH detached_stays [of ?s1 _ False r] by auto
    qed
  qed
qed

lemma filter_match_keys:
  "filter (\<lambda>p. fst p \<notin> set (filter P (map fst xs))) xs = filter (\<lambda>p. \<not> P (fst p)) xs"
  by (rule filter_cong) auto

lemma torn_down_all:
  assumes "map_of (instances st) k = Some w" and "P k"
  shows "heap (fold (cleanupKey False) (filter P (map fst (instances st))) st) w = wiped \<and>
         (\<forall>ui. element (heap st w) = Some ui \<longrightarrow>
            parentEl (els (fold (cleanupKey False) (filter P (map fst (instances st))) st) ui)
              = None)"
proof -
  from assms(1) have "k \<in> fst ` set (instances st)"
    by (metis map_of_eq_None_iff option.distinct(1))
  with assms(2) have "k \<in> set (filter P (map fst (instances st)))" by simp
  from torn_down_fold [OF this assms(1)] show ?thesis .
qed

text \<open>
  Claim C9. For every node id (or none, meaning all instances) and either value of
  \<open>silent\<close>, \<open>cleanup\<close> makes the same changes to the registry, the assistant objects, the
  DOM, the history and the tag cache; \<open>silent\<close> only decides whether the summary is
  logged. The silent run leaves the log as it was, and the other run differs from it in
  the log alone.
\<close>

theorem cleanup_silent_same_effects:
  "cleanup nid True st = (cleanup nid False st)\<lparr>logs := logs st\<rparr> \<and>
   logs (cleanup nid True st) = logs st \<and>
   (\<exists>summary. logs (cleanup nid False st) = logs st @ summary)"
proof -
  have same: "cleanup nid True st = (cleanup nid False st)\<lparr>logs := logs st\<rparr>"
    by (simp add: cleanup_def Let_def logs_restore split: option.splits)
  have quiet: "logs (cleanup nid True st) = logs st"
    by (subst same) simp
  have "\<exists>summary. logs (cleanup nid False st) = logs st @ summary"
    by (simp add: cleanup_def Let_def split: option.splits)
  with same quiet show ?thesis by blast
qed

lemma switching_cleanup_effects:
  assumes "switching st"
  shows "history (cleanup nid silent st) = history st \<and>
         tagCache (cleanup nid silent st) = tagCache st \<and>
         instances (cleanup nid silent st) =
           filter (\<lambda>p. \<not> switchingMatch nid (fst p)) (instances st) \<and>
         (\<forall>k w. map_of (instances st) k = Some w \<and> switchingMatch nid k \<longrightarrow>
            heap (cleanup nid silent st) w = wiped \<and>
            (\<forall>ui. element (heap st w) = Some ui \<longrightarrow>
               parentEl (els (cleanup nid silent st) ui) = None))"
proof -
  let ?ks = "filter (switchingMatch nid) (map fst (instances st))"
  let ?s1 = "fold (cleanupKey False) ?ks st"
  have c: "cleanup nid silent st = (if nid = None then ?s1\<lparr>instances := []\<rparr> else ?s1)"
    using assms by (auto simp add: cleanup_def Let_def)
  have i: "instances (cleanup nid silent st) =
           filter (\<lambda>p. \<not> switchingMatch nid (fst p)) (instances st)"
  proof (cases nid)
    case None
    then show ?thesis unfolding c by (simp add: switchingMatch_def)
  next
    case (Some n)
    then have ne: "[] \<notin> set ?ks" using switchingMatch_nonempty by auto
    have "instances ?s1 = filter (\<lambda>p. \<not> switchingMatch nid (fst p)) (instances st)"
      by (simp only: instances_fold_cleanupKey [OF ne] filter_match_keys)
    with Some show ?thesis unfolding c by simp
  qed
  have t: "heap (cleanup nid silent st) w = wiped \<and>
           (\<forall>ui. element (heap st w) = Some ui \<longrightarrow>
              parentEl (els (cleanup nid silent st) ui) = None)"
    if "map_of (instances st) k = Some w" and "switchingMatch nid k" for k w
    unfolding c using torn_down_all [where P = "switchingMatch nid", OF that]
    by (cases nid) simp_all
  have h: "history (cleanup nid silent st) = history st"
          "tagCache (cleanup nid silent st) = tagCache st"
    unfolding c by simp_all
  from i t h show ?thesis by blast
qed

lemma switching_misses_generated_keys:
  assumes "switching st"
    and "\<forall>k\<in>set (map fst (instances st)). \<not> startsWith k (n @ ''_'')"
  shows "cleanup (Some n) silent st = st"
proof -
  have "filter (switchingMatch (Some n)) (map fst (instances st)) = []"
    using assms(2) by (auto simp add: filter_empty_conv switchingMatch_def)
  with assms(1) show ?thesis by (simp add: cleanup_def)
qed

text \<open>
  Claim C10. While a workflow is being switched, every call of \<open>cleanup\<close>, for one node or
  for all instances, removes the matching instances from the registry and tears down
  their UI, and leaves the history and the tag cache as they were. On the code the history
  and the tag cache are left alone and the call for all instances removes every instance
  (lemma \<open>switching_cleanup_effects\<close>), but the call for one node misses the node's
  instances: the filter of line 494 keeps the keys that start with the node id, the old
  format of the keys, while \<^verbatim>\<open>_getAssistantKey\<close> makes keys that start with the graph
  id. For the assistant that the scan registers for the input of node 5, under the key
  main_5_text, and that is then mounted, \<open>cleanup\<close> for node 5 changes nothing while the
  flag is set: the instance stays registered and its root stays in the DOM. With the flag
  unset, the filter of lines 518 to 526 finds the key, and the instance is removed and
  torn down.
\<close>

theorem switching_cleanup_keeps_node_instance:
  "switching stSwitching \<and> instances stSwitching = [(''main_5_text'', 0)] \<and>
   nodeId (heap stSwitching 0) = Some ''5'' \<and> element (heap stSwitching 0) = Some 100 \<and>
   parentEl (els stSwitching 100) = Some 50 \<and>
   cleanup (Some ''5'') False stSwitching = stSwitching \<and>
   instances (cleanup (Some ''5'') False stMounted) = [] \<and>
   parentEl (els (cleanup (Some ''5'') False stMounted) 100) = None \<and>
   instances (cleanup None False stSwitching) = [] \<and>
   parentEl (els (cleanup None False stSwitching) 100) = None \<and>
   history (cleanup None False stSwitching) = history stSwitching \<and>
   history stSwitching \<noteq> []"
proof -
  have ev: "switching stSwitching" "instances stSwitching = [(''main_5_text'', 0)]"
    "nodeId (heap stSwitching 0) = Some ''5''" "element (heap stSwitching 0) = Some 100"
    "parentEl (els stSwitching 100) = Some 50"
    "instances (cleanup (Some ''5'') False stMounted) = []"
    "parentEl (els (cleanup (Some ''5'') False stMounted) 100) = None"
    "instances (cleanup None False stSwitching) = []"
    "parentEl (els (cleanup None False stSwitching) 100) = None"
    "history (cleanup None False stSwitching) = history stSwitching"
    "history stSwitching \<noteq> []"
    by code_simp+
  have "cleanup (Some ''5'') False stSwitching = stSwitching"
    by (rule switching_misses_generated_keys) (simp_all add: ev startsWith_def)
  with ev show ?thesis by blast
qed

section \<open>What the expand and translate operations change\<close>

lemma frame_setInputValue [simp]:
  "history (snd (setInputValue w c s st)) = history st"
  "translateCache (snd (setInputValue w c s st)) = translateCache st"
  "requests (snd (setInputValue w c s st)) = requests st"
  "useTranslateCache (snd (setInputValue w c s st)) = useTranslateCache st"
  "cacheMixedLangTranslation (snd (setInputValue w c s st)) = cacheMixedLangTranslation st"
  "instances (snd (setInputValue w c s st)) = instances st"
  "nodeId (heap (snd (setInputValue w c s st)) x) = nodeId (heap st x)"
  "inputId (heap (snd (setInputValue w c s st)) x) = inputId (heap st x)"
  "inputEl (heap (snd (setInputValue w c s st)) x) = inputEl (heap st x)"
  "historyLimit (snd (setInputValue w c s st)) = historyLimit st"
  "recorded (snd (setInputValue w c s st)) = recorded st"
  by (simp_all add: setInputValue_def syncValueProp_def dispatchInputChange_def updW_def
      updEl_def Let_def split: option.splits)

lemma silent_no_events:
  "el_events (els (snd (setInputValue w c True st)) e) = el_events (els st e)"
  by (simp add: setInputValue_def syncValueProp_def updW_def updEl_def Let_def
      split: option.splits)

lemma el_kind_setInputValue [simp]:
  "el_kind (els (snd (setInputValue w c s st)) e) = el_kind (els st e)"
  by (simp add: setInputValue_def syncValueProp_def dispatchInputChange_def updW_def
      updEl_def Let_def split: option.splits)

lemma frame_streamChunks [simp]:
  "history (snd (streamChunks w sc cs st)) = history st"
  "translateCache (snd (streamChunks w sc cs st)) = translateCache st"
  "requests (snd (streamChunks w sc cs st)) = requests st"
  "useTranslateCache (snd (streamChunks w sc cs st)) = useTranslateCache st"
  "cacheMixedLangTranslation (snd (streamChunks w sc cs st)) = cacheMixedLangTranslation st"
  "instances (snd (streamChunks w sc cs st)) = instances st"
  "nodeId (heap (snd (streamChunks w sc cs st)) x) = nodeId (heap st x)"
  "inputId (heap (snd (streamChunks w sc cs st)) x) = inputId (heap st x)"
  "el_events (els (snd (streamChunks w sc cs st)) e) = el_events (els st e)"
  "historyLimit (snd (streamChunks w sc cs st)) = historyLimit st"
  "recorded (snd (streamChunks w sc cs st)) = recorded st"
  by (induction cs arbitrary: sc st) (simp_all add: silent_no_events)

lemma fst_streamChunks [simp]: "fst (streamChunks w sc cs st) = sc @ concat cs"
  by (induction cs arbitrary: sc st) simp_all

lemma frame_updateInputWithHighlight [simp]:
  "history (updateInputWithHighlight w c st) = history st"
  "translateCache (updateInputWithHighlight w c st) = translateCache st"
  "requests (updateInputWithHighlight w c st) = requests st"
  "useTranslateCache (updateInputWithHighlight w c st) = useTranslateCache st"
  "cacheMixedLangTranslation (updateInputWithHighlight w c st) = cacheMixedLangTranslation st"
  "nodeId (heap (updateInputWithHighlight w c st) x) = nodeId (heap st x)"
  "inputId (heap (updateInputWithHighlight w c st) x) = inputId (heap st x)"
  "historyLimit (updateInputWithHighlight w c st) = historyLimit st"
  "recorded (updateInputWithHighlight w c st) = recorded st"
  by (simp_all add: updateInputWithHighlight_def)

lemma frame_addTranslateCache [simp]:
  "history (addTranslateCache a b st) = history st"
  "requests (addTranslateCache a b st) = requests st"
  "els (addTranslateCache a b st) = els st" "heap (addTranslateCache a b st) = heap st"
  "recorded (addTranslateCache a b st) = recorded st"
  by (simp_all add: addTranslateCache_def)

lemma inputEl_streamChunks [simp]:
  "inputEl (heap (snd (streamChunks w sc cs st)) x) = inputEl (heap st x)"
  "el_kind (els (snd (streamChunks w sc cs st)) e) = el_kind (els st e)"
  by (induction cs arbitrary: sc st) simp_all

lemma written_text:
  "inputEl (heap st w) = Some e \<Longrightarrow> el_kind (els st e) \<noteq> OtherElement \<Longrightarrow>
   el_value (els (updateInputWithHighlight w c st) e) = c"
  by (simp add: updateInputWithHighlight_def setInputValue_def syncValueProp_def
      dispatchInputChange_def updW_def updEl_def Let_def)

lemma set_evict: "set (evict n item h) \<subseteq> set h"
  by (induction n item h rule: evict.induct) auto

lemma set_recordInput: "set (recordInput limit item h) \<subseteq> insert item (set h)"
  using set_evict [of "length (filter (sameKey item) (h @ [item])) - limit" item "h @ [item]"]
  by (auto simp add: recordInput_def)

lemma events_updateInputWithHighlight:
  "el_events (els (updateInputWithHighlight w c st) e) =
     el_events (els st e) @
     (if inputEl (heap st w) = Some e \<and> el_kind (els st e) \<noteq> OtherElement
      then [''input'', ''change''] else [])"
  by (simp add: updateInputWithHighlight_def setInputValue_def syncValueProp_def
      dispatchInputChange_def updW_def updEl_def Let_def split: option.splits)

lemma written_silently:
  "inputEl (heap st w) = Some e \<Longrightarrow> el_kind (els st e) \<noteq> OtherElement \<Longrightarrow>
   el_value (els (snd (setInputValue w c True st)) e) = c"
  by (simp add: setInputValue_def syncValueProp_def updW_def updEl_def Let_def)

lemma streamed_text:
  "cs \<noteq> [] \<Longrightarrow> inputEl (heap st w) = Some e \<Longrightarrow> el_kind (els st e) \<noteq> OtherElement \<Longrightarrow>
   el_value (els (snd (streamChunks w sc cs st)) e) = sc @ concat cs"
proof (induction cs arbitrary: sc st)
  case Nil
  then show ?case by simp
next
  case (Cons chunk rest)
  show ?case
  proof (cases "rest = []")
    case True
    with Cons.prems show ?thesis by (simp add: written_silently)
  next
    case False
    from Cons.IH [OF False, of "snd (setInputValue w (sc @ chunk) True st)" "sc @ chunk"]
      Cons.prems
    show ?thesis by simp
  qed
qed

lemma expand_failure:
  assumes "fst (expandWork net w iv st) = Inl f"
  shows "history (snd (expandWork net w iv st)) = history st"
    "recorded (snd (expandWork net w iv st)) = recorded st"
    "el_events (els (snd (expandWork net w iv st)) e) = el_events (els st e)"
  using assms
  by (auto simp add: expandWork_def Let_def split: api_outcome.splits option.splits if_splits)

lemma expand_success:
  assumes "fst (expandWork net w iv st) = Inr ok"
  shows "\<exists>c. recorded (snd (expandWork net w iv st)) =
               recorded st @ [historyEntry w c ''expand'' st] \<and>
           history (snd (expandWork net w iv st)) =
               recordInput (historyLimit st) (historyEntry w c ''expand'' st) (history st) \<and>
           (enableStreaming st \<and> concat (net_chunks net) \<noteq> [] \<longrightarrow> c = concat (net_chunks net)) \<and>
           (\<forall>e. inputEl (heap st w) = Some e \<and> el_kind (els st e) \<noteq> OtherElement \<longrightarrow>
               el_value (els (snd (expandWork net w iv st)) e) = c) \<and>
           (\<forall>e. el_events (els (snd (expandWork net w iv st)) e) =
               el_events (els st e) @
               (if inputEl (heap st w) = Some e \<and> el_kind (els st e) \<noteq> OtherElement
                then [''input'', ''change''] else []))"
  using assms
  by (auto simp add: expandWork_def Let_def historyEntry_def written_text
      events_updateInputWithHighlight
      split: api_outcome.splits option.splits if_splits)

lemma frame_callTranslate [simp]:
  "history (snd (callTranslate net w c st)) = history st"
  "nodeId (heap (snd (callTranslate net w c st)) x) = nodeId (heap st x)"
  "inputId (heap (snd (callTranslate net w c st)) x) = inputId (heap st x)"
  "inputEl (heap (snd (callTranslate net w c st)) x) = inputEl (heap st x)"
  "el_kind (els (snd (callTranslate net w c st)) e) = el_kind (els st e)"
  "translateCache (snd (callTranslate net w c st)) = translateCache st"
  "useTranslateCache (snd (callTranslate net w c st)) = useTranslateCache st"
  "cacheMixedLangTranslation (snd (callTranslate net w c st)) = cacheMixedLangTranslation st"
  "historyLimit (snd (callTranslate net w c st)) = historyLimit st"
  "recorded (snd (callTranslate net w c st)) = recorded st"
  "el_events (els (snd (callTranslate net w c st)) e) = el_events (els st e)"
  by (simp_all add: callTranslate_def)

lemma streamed_callTranslate:
  "net_config net \<noteq> ConfigProvider ''google'' \<Longrightarrow> net_config net \<noteq> ConfigProvider ''baidu'' \<Longrightarrow>
   enableStreaming st \<Longrightarrow> fst (callTranslate net w c st) = concat (net_chunks net)"
  by (simp add: callTranslate_def)

lemma translate_failure:
  assumes "fst (translateWork hp net w iv st) = Inl f"
  shows "history (snd (translateWork hp net w iv st)) = history st"
    "recorded (snd (translateWork hp net w iv st)) = recorded st"
    "el_events (els (snd (translateWork hp net w iv st)) e) = el_events (els st e)"
  using assms
  by (auto simp add: translateWork_def Let_def
      split: api_outcome.splits option.splits if_splits config_outcome.splits)

lemma translate_success:
  assumes "fst (translateWork hp net w iv st) = Inr ok"
  shows "\<exists>c. recorded (snd (translateWork hp net w iv st)) =
               recorded st @ [historyEntry w c ''translate'' st] \<and>
           history (snd (translateWork hp net w iv st)) =
               recordInput (historyLimit st) (historyEntry w c ''translate'' st) (history st) \<and>
           (\<not> useCache ok \<and> net_config net \<noteq> ConfigProvider ''google'' \<and>
            net_config net \<noteq> ConfigProvider ''baidu'' \<and> enableStreaming st \<and>
            concat (net_chunks net) \<noteq> [] \<longrightarrow>
              c = restoreText hp iv (formatTranslatedText hp (concat (net_chunks net)))) \<and>
           (\<forall>e. inputEl (heap st w) = Some e \<and> el_kind (els st e) \<noteq> OtherElement \<longrightarrow>
               el_value (els (snd (translateWork hp net w iv st)) e) = c) \<and>
           (\<forall>e. el_events (els (snd (translateWork hp net w iv st)) e) =
               el_events (els st e) @
               (if inputEl (heap st w) = Some e \<and> el_kind (els st e) \<noteq> OtherElement
                then [''input'', ''change''] else []))"
  using assms
  by (auto simp add: translateWork_def Let_def historyEntry_def written_text
      streamed_callTranslate events_updateInputWithHighlight
      split: api_outcome.splits option.splits if_splits config_outcome.splits)

text \<open>
  Claim C6. During a streaming expand or translate operation no partial chunk reaches the
  history. The streaming callbacks write the text received so far to the input, silently:
  they hand nothing to the history service, the history stays as it was, and no event is
  dispatched, so that no listener runs. An operation that fails hands nothing to the
  history service either. An operation that succeeds hands it exactly one entry, after
  the last chunk, whose text is the final text of the input: all the chunks together for a
  streamed expansion, and all the chunks together, formatted (and put back into the
  note's markup for a Markdown note), for a streamed translation. The history afterwards
  is the history before with that one entry recorded by the service, so every entry in it
  is an old one or the final one. The only events that an operation dispatches are one \<^verbatim>\<open>input\<close> and one
  \<^verbatim>\<open>change\<close> event on the bound element, when it writes the final text; the listeners
  that record the text of the input (lines 1195, 2746 and 2870) are \<^verbatim>\<open>blur\<close>
  listeners, and no operation dispatches that event.
\<close>

theorem streaming_history_once:
  "recorded (snd (streamChunks w sc cs st)) = recorded st \<and>
   history (snd (streamChunks w sc cs st)) = history st \<and>
   (\<forall>e. el_events (els (snd (streamChunks w sc cs st)) e) = el_events (els st e)) \<and>
   (\<forall>e. cs \<noteq> [] \<and> inputEl (heap st w) = Some e \<and> el_kind (els st e) \<noteq> OtherElement \<longrightarrow>
      el_value (els (snd (streamChunks w sc cs st)) e) = sc @ concat cs) \<and>
   (case fst (expandWork net w iv st) of
      Inl f \<Rightarrow>
        recorded (snd (expandWork net w iv st)) = recorded st \<and>
        history (snd (expandWork net w iv st)) = history st \<and>
        (\<forall>e. el_events (els (snd (expandWork net w iv st)) e) = el_events (els st e))
    | Inr ok \<Rightarrow>
        (\<exists>c. recorded (snd (expandWork net w iv st)) =
               recorded st @ [historyEntry w c ''expand'' st] \<and>
             history (snd (expandWork net w iv st)) =
               recordInput (historyLimit st) (historyEntry w c ''expand'' st) (history st) \<and>
             set (history (snd (expandWork net w iv st))) \<subseteq>
               insert (historyEntry w c ''expand'' st) (set (history st)) \<and>
             (enableStreaming st \<and> concat (net_chunks net) \<noteq> [] \<longrightarrow> c = concat (net_chunks net)) \<and>
             (\<forall>e. inputEl (heap st w) = Some e \<and> el_kind (els st e) \<noteq> OtherElement \<longrightarrow>
                el_value (els (snd (expandWork net w iv st)) e) = c) \<and>
             (\<forall>e. el_events (els (snd (expandWork net w iv st)) e) =
                el_events (els st e) @
                (if inputEl (heap st w) = Some e \<and> el_kind (els st e) \<noteq> OtherElement
                 then [''input'', ''change''] else [])))) \<and>
   (case fst (translateWork hp net w iv st) of
      Inl f \<Rightarrow>
        recorded (snd (translateWork hp net w iv st)) = recorded st \<and>
        history (snd (translateWork hp net w iv st)) = history st \<and>
        (\<forall>e. el_events (els (snd (translateWork hp net w iv st)) e) = el_events (els st e))
    | Inr ok \<Rightarrow>
        (\<exists>c. recorded (snd (translateWork hp net w iv st)) =
               recorded st @ [historyEntry w c ''translate'' st] \<and>
             history (snd (translateWork hp net w iv st)) =
               recordInput (historyLimit st) (historyEntry w c ''translate'' st) (history st) \<and>
             set (history (snd (translateWork hp net w iv st))) \<subseteq>
               insert (historyEntry w c ''translate'' st) (set (history st)) \<and>
             (\<not> useCache ok \<and> net_config net \<noteq> ConfigProvider ''google'' \<and>
              net_config net \<noteq> ConfigProvider ''baidu'' \<and> enableStreaming st \<and>
              concat (net_chunks net) \<noteq> [] \<longrightarrow>
                c = restoreText hp iv (formatTranslatedText hp (concat (net_chunks net)))) \<and>
             (\<forall>e. inputEl (heap st w) = Some e \<and> el_kind (els st e) \<noteq> OtherElement \<longrightarrow>
                el_value (els (snd (translateWork hp net w iv st)) e) = c) \<and>
             (\<forall>e. el_events (els (snd (translateWork hp net w iv st)) e) =
                el_events (els st e) @
                (if inputEl (heap st w) = Some e \<and> el_kind (els st e) \<noteq> OtherElement
                 then [''input'', ''change''] else []))))"
proof -
  have e: "case fst (expandWork net w iv st) of
      Inl f \<Rightarrow>
        recorded (snd (expandWork net w iv st)) = recorded st \<and>
        history (snd (expandWork net w iv st)) = history st \<and>
        (\<forall>e. el_events (els (snd (expandWork net w iv st)) e) = el_events (els st e))
    | Inr ok \<Rightarrow>
        (\<exists>c. recorded (snd (expandWork net w iv st)) =
               recorded st @ [historyEntry w c ''expand'' st] \<and>
             history (snd (expandWork net w iv st)) =
               recordInput (historyLimit st) (historyEntry w c ''expand'' st) (history st) \<and>
             set (history (snd (expandWork net w iv st))) \<subseteq>
               insert (historyEntry w c ''expand'' st) (set (history st)) \<and>
             (enableStreaming st \<and> concat (net_chunks net) \<noteq> [] \<longrightarrow> c = concat (net_chunks net)) \<and>
             (\<forall>e. inputEl (heap st w) = Some e \<and> el_kind (els st e) \<noteq> OtherElement \<longrightarrow>
                el_value (els (snd (expandWork net w iv st)) e) = c) \<and>
             (\<forall>e. el_events (els (snd (expandWork net w iv st)) e) =
                el_events (els st e) @
                (if inputEl (heap st w) = Some e \<and> el_kind (els st e) \<noteq> OtherElement
                 then [''input'', ''change''] else [])))"
  proof (cases "fst (expandWork net w iv st)")
    case (Inl f)
    then show ?thesis by (simp add: expand_failure)
  next
    case (Inr ok)
    from expand_success [OF Inr] obtain c where
      c: "recorded (snd (expandWork net w iv st)) =
            recorded st @ [historyEntry w c ''expand'' st]"
         "history (snd (expandWork net w iv st)) =
            recordInput (historyLimit st) (historyEntry w c ''expand'' st) (history st)"
         "enableStreaming st \<and> concat (net_chunks net) \<noteq> [] \<longrightarrow> c = concat (net_chunks net)"
         "\<forall>e. inputEl (heap st w) = Some e \<and> el_kind (els st e) \<noteq> OtherElement \<longrightarrow>
               el_value (els (snd (expandWork net w iv st)) e) = c"
         "\<forall>e. el_events (els (snd (expandWork net w iv st)) e) =
               el_events (els st e) @
               (if inputEl (heap st w) = Some e \<and> el_kind (els st e) \<noteq> OtherElement
                then [''input'', ''change''] else [])" by blast
    have "set (history (snd (expandWork net w iv st))) \<subseteq>
            insert (historyEntry w c ''expand'' st) (set (history st))"
      unfolding c(2) by (rule set_recordInput)
    with c have "\<exists>c. recorded (snd (expandWork net w iv st)) =
               recorded st @ [historyEntry w c ''expand'' st] \<and>
             history (snd (expandWork net w iv st)) =
               recordInput (historyLimit st) (historyEntry w c ''expand'' st) (history st) \<and>
             set (history (snd (expandWork net w iv st))) \<subseteq>
               insert (historyEntry w c ''expand'' st) (set (history st)) \<and>
             (enableStreaming st \<and> concat (net_chunks net) \<noteq> [] \<longrightarrow> c = concat (net_chunks net)) \<and>
             (\<forall>e. inputEl (heap st w) = Some e \<and> el_kind (els st e) \<noteq> OtherElement \<longrightarrow>
                el_value (els (snd (expandWork net w iv st)) e) = c) \<and>
             (\<forall>e. el_events (els (snd (expandWork net w iv st)) e) =
                el_events (els st e) @
                (if inputEl (heap st w) = Some e \<and> el_kind (els st e) \<noteq> OtherElement
                 then [''input'', ''change''] else []))" by blast
    with Inr show ?thesis by simp
  qed
  have t: "case fst (translateWork hp net w iv st) of
      Inl f \<Rightarrow>
        recorded (snd (translateWork hp net w iv st)) = recorded st \<and>
        history (snd (translateWork hp net w iv st)) = history st \<and>
        (\<forall>e. el_events (els (snd (translateWork hp net w iv st)) e) = el_events (els st e))
    | Inr ok \<Rightarrow>
        (\<exists>c. recorded (snd (translateWork hp net w iv st)) =
               recorded st @ [historyEntry w c ''translate'' st] \<and>
             history (snd (translateWork hp net w iv st)) =
               recordInput (historyLimit st) (historyEntry w c ''translate'' st) (history st) \<and>
             set (history (snd (translateWork hp net w iv st))) \<subseteq>
               insert (historyEntry w c ''translate'' st) (set (history st)) \<and>
             (\<not> useCache ok \<and> net_config net \<noteq> ConfigProvider ''google'' \<and>
              net_config net \<noteq> ConfigProvider ''baidu'' \<and> enableStreaming st \<and>
              concat (net_chunks net) \<noteq> [] \<longrightarrow>
                c = restoreText hp iv (formatTranslatedText hp (concat (net_chunks net)))) \<and>
             (\<forall>e. inputEl (heap st w) = Some e \<and> el_kind (els st e) \<noteq> OtherElement \<longrightarrow>
                el_value (els (snd (translateWork hp net w iv st)) e) = c) \<and>
             (\<forall>e. el_events (els (snd (translateWork hp net w iv st)) e) =
                el_events (els st e) @
                (if inputEl (heap st w) = Some e \<and> el_kind (els st e) \<noteq> OtherElement
                 then [''input'', ''change''] else [])))"
  proof (cases "fst (translateWork hp net w iv st)")
    case (Inl f)
    then show ?thesis by (simp add: translate_failure)
  next
    case (Inr ok)
    from translate_success [OF Inr] obtain c where
      c: "recorded (snd (translateWork hp net w iv st)) =
            recorded st @ [historyEntry w c ''translate'' st]"
         "history (snd (translateWork hp net w iv st)) =
            recordInput (historyLimit st) (historyEntry w c ''translate'' st) (history st)"
         "\<not> useCache ok \<and> net_config net \<noteq> ConfigProvider ''google'' \<and>
          net_config net \<noteq> ConfigProvider ''baidu'' \<and> enableStreaming st \<and>
          concat (net_chunks net) \<noteq> [] \<longrightarrow>
            c = restoreText hp iv (formatTranslatedText hp (concat (net_chunks net)))"
         "\<forall>e. inputEl (heap st w) = Some e \<and> el_kind (els st e) \<noteq> OtherElement \<longrightarrow>
               el_value (els (snd (translateWork hp net w iv st)) e) = c"
         "\<forall>e. el_events (els (snd (translateWork hp net w iv st)) e) =
               el_events (els st e) @
               (if inputEl (heap st w) = Some e \<and> el_kind (els st e) \<noteq> OtherElement
                then [''input'', ''change''] else [])" by blast
    have "set (history (snd (translateWork hp net w iv st))) \<subseteq>
            insert (historyEntry w c ''translate'' st) (set (history st))"
      unfolding c(2) by (rule set_recordInput)
    with c have "\<exists>c. recorded (snd (translateWork hp net w iv st)) =
               recorded st @ [historyEntry w c ''translate'' st] \<and>
             history (snd (translateWork hp net w iv st)) =
               recordInput (historyLimit st) (historyEntry w c ''translate'' st) (history st) \<and>
             set (history (snd (translateWork hp net w iv st))) \<subseteq>
               insert (historyEntry w c ''translate'' st) (set (history st)) \<and>
             (\<not> useCache ok \<and> net_config net \<noteq> ConfigProvider ''google'' \<and>
              net_config net \<noteq> ConfigProvider ''baidu'' \<and> enableStreaming st \<and>
              concat (net_chunks net) \<noteq> [] \<longrightarrow>
                c = restoreText hp iv (formatTranslatedText hp (concat (net_chunks net)))) \<and>
             (\<forall>e. inputEl (heap st w) = Some e \<and> el_kind (els st e) \<noteq> OtherElement \<longrightarrow>
                el_value (els (snd (translateWork hp net w iv st)) e) = c) \<and>
             (\<forall>e. el_events (els (snd (translateWork hp net w iv st)) e) =
                el_events (els st e) @
                (if inputEl (heap st w) = Some e \<and> el_kind (els st e) \<noteq> OtherElement
                 then [''input'', ''change''] else []))" by blast
    with Inr show ?thesis by simp
  qed
  from e t show ?thesis by (simp add: streamed_text)
qed

theorem streaming_history_once_witness:
  "fst (expandWork netStream 0 (lit ''a cat'') stOp) =
     Inr \<lparr>useCache = False, tipMessage = TipExpandDone\<rparr> \<and>
   history stOp = [] \<and> recorded stOp = [] \<and>
   recorded (snd (expandWork netStream 0 (lit ''a cat'') stOp)) =
     [\<lparr>h_node = Some ''5'', h_input = Some ''text'', h_content = lit ''a red cat'',
       h_op = ''expand''\<rparr>] \<and>
   history (snd (expandWork netStream 0 (lit ''a cat'') stOp)) =
     [\<lparr>h_node = Some ''5'', h_input = Some ''text'', h_content = lit ''a red cat'',
       h_op = ''expand''\<rparr>] \<and>
   el_value (els (snd (expandWork netStream 0 (lit ''a cat'') stOp)) 1) = lit ''a red cat'' \<and>
   recorded (snd (streamChunks 0 [] [lit ''a '', lit ''red ''] stOp)) = [] \<and>
   history (snd (streamChunks 0 [] [lit ''a '', lit ''red ''] stOp)) = [] \<and>
   el_value (els (snd (streamChunks 0 [] [lit ''a '', lit ''red ''] stOp)) 1) = lit ''a red '' \<and>
   el_events (els (snd (streamChunks 0 [] [lit ''a '', lit ''red ''] stOp)) 1) = [] \<and>
   fst (translateWork hp0 netStream 0 (lit ''a cat'') stOp) =
     Inr \<lparr>useCache = False, tipMessage = TipTranslateDone\<rparr> \<and>
   recorded (snd (translateWork hp0 netStream 0 (lit ''a cat'') stOp)) =
     [\<lparr>h_node = Some ''5'', h_input = Some ''text'', h_content = lit ''a red cat'',
       h_op = ''translate''\<rparr>] \<and>
   history (snd (translateWork hp0 netStream 0 (lit ''a cat'') stOp)) =
     [\<lparr>h_node = Some ''5'', h_input = Some ''text'', h_content = lit ''a red cat'',
       h_op = ''translate''\<rparr>] \<and>
   el_value (els (snd (translateWork hp0 netStream 0 (lit ''a cat'') stOp)) 1) = lit ''a red cat'' \<and>
   recorded (snd (expandWork netStream 0 (lit ''a red cat'')
                (snd (expandWork netStream 0 (lit ''a cat'') stOp)))) =
     [\<lparr>h_node = Some ''5'', h_input = Some ''text'', h_content = lit ''a red cat'',
       h_op = ''expand''\<rparr>,
      \<lparr>h_node = Some ''5'', h_input = Some ''text'', h_content = lit ''a red cat'',
       h_op = ''expand''\<rparr>] \<and>
   history (snd (expandWork netStream 0 (lit ''a red cat'')
               (snd (expandWork netStream 0 (lit ''a cat'') stOp)))) =
     [\<lparr>h_node = Some ''5'', h_input = Some ''text'', h_content = lit ''a red cat'',
       h_op = ''expand''\<rparr>]"
proof -
  let ?cs = "[lit ''a '', lit ''red '']"
  let ?e = "\<lambda>op. \<lparr>h_node = Some ''5'', h_input = Some ''text'', h_content = lit ''a red cat'',
               h_op = op\<rparr>"
  have ev: "fst (expandWork netStream 0 (lit ''a cat'') stOp) =
              Inr \<lparr>useCache = False, tipMessage = TipExpandDone\<rparr>"
    "fst (translateWork hp0 netStream 0 (lit ''a cat'') stOp) =
       Inr \<lparr>useCache = False, tipMessage = TipTranslateDone\<rparr>"
    "history stOp = []" "el_events (els stOp 1) = []"
    "enableStreaming stOp" "concat (net_chunks netStream) \<noteq> []"
    "net_config netStream \<noteq> ConfigProvider ''google''"
    "net_config netStream \<noteq> ConfigProvider ''baidu''"
    "inputEl (heap stOp 0) = Some 1" "el_kind (els stOp 1) \<noteq> OtherElement"
    "[] @ concat ?cs = lit ''a red ''"
    "recorded stOp = []"
    "recorded (snd (expandWork netStream 0 (lit ''a red cat'')
                 (snd (expandWork netStream 0 (lit ''a cat'') stOp)))) =
       [?e ''expand'', ?e ''expand'']"
    "history (snd (expandWork netStream 0 (lit ''a red cat'')
                (snd (expandWork netStream 0 (lit ''a cat'') stOp)))) = [?e ''expand'']"
    by code_simp+
  have rec: "recordInput (historyLimit stOp)
        (historyEntry 0 (lit ''a red cat'') ''expand'' stOp) (history stOp) = [?e ''expand'']"
    "recordInput (historyLimit stOp)
        (historyEntry 0 (lit ''a red cat'') ''translate'' stOp) (history stOp) =
        [?e ''translate'']"
    "concat (net_chunks netStream) = lit ''a red cat''"
    "restoreText hp0 (lit ''a cat'') (formatTranslatedText hp0 (concat (net_chunks netStream)))
       = lit ''a red cat''"
    "recorded stOp @ [historyEntry 0 (lit ''a red cat'') ''expand'' stOp] = [?e ''expand'']"
    "recorded stOp @ [historyEntry 0 (lit ''a red cat'') ''translate'' stOp] =
       [?e ''translate'']"
    by code_simp+
  note T = streaming_history_once [where w = 0 and sc = "[]" and cs = ?cs
      and st = stOp and net = netStream and iv = "lit ''a cat''" and hp = hp0]
  have s: "recorded (snd (streamChunks 0 [] ?cs stOp)) = []"
    "history (snd (streamChunks 0 [] ?cs stOp)) = []"
    "el_events (els (snd (streamChunks 0 [] ?cs stOp)) 1) = []"
    using conjunct1 [OF T] conjunct1 [OF conjunct2 [OF T]]
      spec [OF conjunct1 [OF conjunct2 [OF conjunct2 [OF T]]], of 1]
    unfolding ev(3) ev(4) ev(12) by blast+
  from spec [OF conjunct1 [OF conjunct2 [OF conjunct2 [OF conjunct2 [OF T]]]], of 1]
    ev(9) ev(10)
  have "el_value (els (snd (streamChunks 0 [] ?cs stOp)) 1) = [] @ concat ?cs" by blast
  then have sv: "el_value (els (snd (streamChunks 0 [] ?cs stOp)) 1) = lit ''a red ''"
    by (simp only: ev(11))
  from T ev(1) obtain c where
    c: "recorded (snd (expandWork netStream 0 (lit ''a cat'') stOp)) =
          recorded stOp @ [historyEntry 0 c ''expand'' stOp]"
       "history (snd (expandWork netStream 0 (lit ''a cat'') stOp)) =
          recordInput (historyLimit stOp) (historyEntry 0 c ''expand'' stOp) (history stOp)"
       "enableStreaming stOp \<and> concat (net_chunks netStream) \<noteq> [] \<longrightarrow>
          c = concat (net_chunks netStream)"
       "\<forall>e. inputEl (heap stOp 0) = Some e \<and> el_kind (els stOp e) \<noteq> OtherElement \<longrightarrow>
          el_value (els (snd (expandWork netStream 0 (lit ''a cat'') stOp)) e) = c"
    by auto
  from c(3) ev have c': "c = lit ''a red cat''" by (simp add: rec(3))
  from c(4) ev(9) ev(10)
  have "el_value (els (snd (expandWork netStream 0 (lit ''a cat'') stOp)) 1) = c" by blast
  with c(1) c(2) have x:
    "recorded (snd (expandWork netStream 0 (lit ''a cat'') stOp)) = [?e ''expand'']"
    "history (snd (expandWork netStream 0 (lit ''a cat'') stOp)) = [?e ''expand'']"
    "el_value (els (snd (expandWork netStream 0 (lit ''a cat'') stOp)) 1) = lit ''a red cat''"
    unfolding c' by (simp_all only: rec(1) rec(5))
  from T ev(2) obtain d where
    d: "recorded (snd (translateWork hp0 netStream 0 (lit ''a cat'') stOp)) =
          recorded stOp @ [historyEntry 0 d ''translate'' stOp]"
       "history (snd (translateWork hp0 netStream 0 (lit ''a cat'') stOp)) =
          recordInput (historyLimit stOp) (historyEntry 0 d ''translate'' stOp) (history stOp)"
       "\<not> useCache \<lparr>useCache = False, tipMessage = TipTranslateDone\<rparr> \<and>
        net_config netStream \<noteq> ConfigProvider ''google'' \<and>
        net_config netStream \<noteq> ConfigProvider ''baidu'' \<and> enableStreaming stOp \<and>
        concat (net_chunks netStream) \<noteq> [] \<longrightarrow>
          d = restoreText hp0 (lit ''a cat'')
                (formatTranslatedText hp0 (concat (net_chunks netStream)))"
       "\<forall>e. inputEl (heap stOp 0) = Some e \<and> el_kind (els stOp e) \<noteq> OtherElement \<longrightarrow>
          el_value (els (snd (translateWork hp0 netStream 0 (lit ''a cat'') stOp)) e) = d"
    by auto
  from d(3) ev have d': "d = lit ''a red cat''" by (simp add: rec(4))
  from d(4) ev(9) ev(10)
  have "el_value (els (snd (translateWork hp0 netStream 0 (lit ''a cat'') stOp)) 1) = d"
    by blast
  with d(1) d(2) have y:
    "recorded (snd (translateWork hp0 netStream 0 (lit ''a cat'') stOp)) = [?e ''translate'']"
    "history (snd (translateWork hp0 netStream 0 (lit ''a cat'') stOp)) = [?e ''translate'']"
    "el_value (els (snd (translateWork hp0 netStream 0 (lit ''a cat'') stOp)) 1) =
       lit ''a red cat''"
    unfolding d' by (simp_all only: rec(2) rec(6))
  from ev s sv x y show ?thesis by simp
qed

lemma translate_cache_frame:
  "(\<exists>ok. fst (translateWork hp net w iv st) = Inr ok \<and> useCache ok) \<Longrightarrow>
     translateCache (snd (translateWork hp net w iv st)) = translateCache st \<and>
     requests (snd (translateWork hp net w iv st)) = requests st"
  by (auto simp add: translateWork_def Let_def
      split: api_outcome.splits option.splits if_splits config_outcome.splits)

lemma length_requests_callTranslate:
  "length (requests (snd (callTranslate net w c st))) = Suc (length (requests st))"
  by (simp add: callTranslate_def)

lemma requests_grow [simp]:
  "requests (snd (callTranslate net w c (st\<lparr>requests := requests st @ [r]\<rparr>))) \<noteq> requests st"
proof
  assume "requests (snd (callTranslate net w c (st\<lparr>requests := requests st @ [r]\<rparr>))) =
          requests st"
  then have "length (requests (snd (callTranslate net w c (st\<lparr>requests := requests st @ [r]\<rparr>))))
    = length (requests st)" by simp
  then show False by (simp add: length_requests_callTranslate)
qed

lemma translate_cache_written_only:
  "translateCache (snd (translateWork hp net w iv st)) \<noteq> translateCache st \<Longrightarrow>
     fst (translateWork hp net w iv st) = Inr \<lparr>useCache = False, tipMessage = TipTranslateDone\<rparr> \<and>
     useTranslateCache st \<and>
     (\<not> isMixedChineseEnglish hp (contentToTranslate hp iv) \<or> cacheMixedLangTranslation st) \<and>
     (\<exists>r. net_outcome net = Resolved (Some r) \<and> r_success r) \<and>
     requests (snd (translateWork hp net w iv st)) \<noteq> requests st"
  by (auto simp add: translateWork_def Let_def
      split: api_outcome.splits option.splits if_splits config_outcome.splits)



text \<open>
  Claim C7. The translate handler writes the cache only for a result served by the
  provider: a result served from the cache leaves the cache as it was and issues no
  request; and when the cache has changed, the translation came from the provider and
  succeeded, the cache is enabled, and the text is not of mixed language or the user
  allows caching mixed language.
\<close>

theorem translate_cache_writes:
  "((\<exists>ok. fst (translateWork hp net w iv st) = Inr ok \<and> useCache ok) \<longrightarrow>
      translateCache (snd (translateWork hp net w iv st)) = translateCache st \<and>
      requests (snd (translateWork hp net w iv st)) = requests st) \<and>
   (translateCache (snd (translateWork hp net w iv st)) \<noteq> translateCache st \<longrightarrow>
      fst (translateWork hp net w iv st) = Inr \<lparr>useCache = False, tipMessage = TipTranslateDone\<rparr> \<and>
      useTranslateCache st \<and>
      (\<not> isMixedChineseEnglish hp (contentToTranslate hp iv) \<or> cacheMixedLangTranslation st) \<and>
      (\<exists>r. net_outcome net = Resolved (Some r) \<and> r_success r) \<and>
      requests (snd (translateWork hp net w iv st)) \<noteq> requests st)"
  using translate_cache_frame [of hp net w iv st] translate_cache_written_only [of hp net w iv st]
  by blast

theorem translate_cache_writes_witness:
  "fst (translateWork hp0 netStream 0 (lit ''hello'') stCached) =
     Inr \<lparr>useCache = True, tipMessage = TipTranslation\<rparr> \<and>
   translateCache (snd (translateWork hp0 netStream 0 (lit ''hello'') stCached)) =
     translateCache stCached \<and>
   requests (snd (translateWork hp0 netStream 0 (lit ''hello'') stCached)) = [] \<and>
   translateCache stOp = \<lparr>tc_source = [], tc_translated = []\<rparr> \<and>
   translateCache (snd (translateWork hp0 netStream 0 (lit ''a cat'') stOp)) =
     \<lparr>tc_source = [(lit ''a cat'', lit ''a red cat'')],
       tc_translated = [(lit ''a red cat'', lit ''a cat'')]\<rparr> \<and>
   fst (translateWork hp0 netStream 0 (lit ''a cat'') stOp) =
     Inr \<lparr>useCache = False, tipMessage = TipTranslateDone\<rparr> \<and>
   useTranslateCache stOp \<and>
   requests (snd (translateWork hp0 netStream 0 (lit ''a cat'') stOp)) =
     [ConfigFetch, LlmTranslateStream (lit ''a cat'')]"
proof -
  have ev: "fst (translateWork hp0 netStream 0 (lit ''hello'') stCached) =
      Inr \<lparr>useCache = True, tipMessage = TipTranslation\<rparr>"
    "requests stCached = []"
    "translateCache stOp = \<lparr>tc_source = [], tc_translated = []\<rparr>"
    "translateCache (snd (translateWork hp0 netStream 0 (lit ''a cat'') stOp)) =
       \<lparr>tc_source = [(lit ''a cat'', lit ''a red cat'')],
         tc_translated = [(lit ''a red cat'', lit ''a cat'')]\<rparr>"
    "useTranslateCache stOp"
    "requests (snd (translateWork hp0 netStream 0 (lit ''a cat'') stOp)) =
       [ConfigFetch, LlmTranslateStream (lit ''a cat'')]"
    by code_simp+
  have ne: "translateCache (snd (translateWork hp0 netStream 0 (lit ''a cat'') stOp)) \<noteq>
      translateCache stOp"
    unfolding ev(3) ev(4) by (simp add: lit_def)
  from translate_cache_writes [of hp0 netStream 0 "lit ''hello''" stCached] ev(1)
  have a: "translateCache (snd (translateWork hp0 netStream 0 (lit ''hello'') stCached)) =
       translateCache stCached \<and>
     requests (snd (translateWork hp0 netStream 0 (lit ''hello'') stCached)) = []"
    by (simp add: ev(2))
  from translate_cache_writes [of hp0 netStream 0 "lit ''a cat''" stOp] ne
  have b: "fst (translateWork hp0 netStream 0 (lit ''a cat'') stOp) =
     Inr \<lparr>useCache = False, tipMessage = TipTranslateDone\<rparr>"
    by blast
  from ev a b show ?thesis by simp
qed






section \<open>Mount coordination\<close>

lemma bindingsOf_updW [simp]: "bindingsOf (updW w f st) = bindingsOf st"
  by (simp add: bindingsOf_def)

lemma bindingsOf_addHistory [simp]: "bindingsOf (addHistory i st) = bindingsOf st"
  by (simp add: bindingsOf_def addHistory_def)

lemma bindingsOf_updEl:
  "listeners (f (els st e)) = listeners (els st e) \<Longrightarrow>
   observers (f (els st e)) = observers (els st e) \<Longrightarrow>
   bindingsOf (updEl e f st) = bindingsOf st"
  by (auto simp add: bindingsOf_def fun_eq_iff)

lemma bindingsOf_deleteInstance [simp]: "bindingsOf (deleteInstance k st) = bindingsOf st"
  by (simp add: bindingsOf_def deleteInstance_def)

lemma bindingsOf_dropRegistered [simp]: "bindingsOf (dropRegistered w st) = bindingsOf st"
  by (simp add: dropRegistered_def)

lemma bindingsOf_destroyContainer [simp]: "bindingsOf (destroyContainer c st) = bindingsOf st"
  by (simp add: destroyContainer_def bindingsOf_updEl split: option.splits)

lemma bindingsOf_detach [simp]: "bindingsOf (detach ui st) = bindingsOf st"
  by (simp add: detach_def bindingsOf_updEl split: option.splits)

lemma bindingsOf_appendChild [simp]: "bindingsOf (appendChild c ui st) = bindingsOf st"
  by (simp add: appendChild_def Let_def bindingsOf_updEl)

lemma bindingsOf_setMountMarker [simp]: "bindingsOf (setMountMarker e w st) = bindingsOf st"
  by (simp add: setMountMarker_def bindingsOf_updEl)

lemma bindingsOf_adoptTextarea [simp]: "bindingsOf (adoptTextarea t w st) = bindingsOf st"
  by (simp add: adoptTextarea_def)

lemma bound_adoptTextarea [simp]:
  "inputEventsBound (heap (adoptTextarea t w st) x) = inputEventsBound (heap st x)"
  by (simp add: adoptTextarea_def)

lemma bind_once_initial:
  "inputEventsBound (heap st w) \<Longrightarrow>
   bindingsOf (initializeInputElBindings w iw node i st) = bindingsOf st"
  by (simp add: initializeInputElBindings_def Let_def split: option.splits)

lemma bind_once_litegraph:
  "inputEventsBound (heap st w) \<Longrightarrow>
   bindingsOf (snd (applyLitegraphPositioning w ce info st)) = bindingsOf st"
  by (simp add: applyLitegraphPositioning_def Let_def split: option.splits)

lemma frame_heap_small [simp]:
  "heap (deleteInstance k st) = heap st"
  "heap (destroyContainer co st) = heap st"
  "heap (dropRegistered w st) = heap st"
  "heap (detach ui st) = heap st"
  "heap (appendChild c ui st) = heap st"
  "heap (setMountMarker e w st) = heap st"
  by (simp_all add: deleteInstance_def destroyContainer_def dropRegistered_def detach_def
      appendChild_def setMountMarker_def Let_def split: option.splits)

lemma bound_addDOMListener [simp]:
  "inputEventsBound (heap (addDOMListener e t w st) x) = inputEventsBound (heap st x)"
  "inputEventsBound (heap (observeResize e w st) x) = inputEventsBound (heap st x)"
  "inputEventsBound (heap (addWindowResize w st) x) = inputEventsBound (heap st x)"
  by (simp_all add: addDOMListener_def observeResize_def addWindowResize_def updW_def)

lemma bound_after_initial:
  "w_inputEl iw \<noteq> None \<or> inputEl (heap st w) \<noteq> None \<Longrightarrow>
   inputEventsBound (heap (initializeInputElBindings w iw node i st) w)"
  by (auto simp add: initializeInputElBindings_def Let_def addHistory_def split: option.splits)

lemma bound_after_litegraph:
  "litegraphTarget w info st \<noteq> None \<Longrightarrow>
   inputEventsBound (heap (snd (applyLitegraphPositioning w ce info st)) w)"
  by (auto simp add: applyLitegraphPositioning_def Let_def litegraphBind_def split: option.splits)

lemma frame_small [simp]:
  "instances (destroyContainer co st) = instances st"
  "instances (detach ui st) = instances st"
  "instances (appendChild c ui st) = instances st"
  "instances (setMountMarker e w st) = instances st"
  "instances (adoptTextarea t w st) = instances st"
  "instances (deleteInstance k st) = AList.delete k (instances st)"
  "inputWidgetMap (destroyContainer co st) = inputWidgetMap st"
  "inputWidgetMap (deleteInstance k st) = inputWidgetMap st"
  "featuresEnabled (destroyContainer co st) = featuresEnabled st"
  "featuresEnabled (deleteInstance k st) = featuresEnabled st"
  "vueNodesMode (destroyContainer co st) = vueNodesMode st"
  "vueNodesMode (deleteInstance k st) = vueNodesMode st"
  "nextWid (destroyContainer co st) = nextWid st"
  "nextWid (deleteInstance k st) = nextWid st"
  "els (deleteInstance k st) = els st"
  "els (adoptTextarea t w st) = els st"
  by (simp_all add: deleteInstance_def destroyContainer_def detach_def
      appendChild_def setMountMarker_def adoptTextarea_def Let_def split: option.splits)

lemma els_destroyContainer:
  "els (destroyContainer co st) x =
     (if co = Some x then (els st x)\<lparr>destroyed := True\<rparr> else els st x)"
  by (auto simp add: destroyContainer_def split: option.splits)

lemma not_has_after_delete [simp]: "\<not> hasInstance (deleteInstance k st) k"
  by (simp add: hasInstance_def AList.delete_conv)

lemma hasInstance_frame [simp]:
  "hasInstance (destroyContainer co st) k = hasInstance st k"
  "hasInstance (updW w f st) k = hasInstance st k"
  "hasInstance (updEl e g st) k = hasInstance st k"
  "hasInstance (addHistory i st) k = hasInstance st k"
  by (simp_all add: hasInstance_def)

lemma not_has_after_drop:
  "widgetKey (heap st w) = Some k \<Longrightarrow> k \<noteq> [] \<Longrightarrow> \<not> hasInstance (dropRegistered w st) k"
  by (simp add: dropRegistered_def truthy_def render_def)

lemma mount_failure:
  assumes "\<not> isDestroyed (heap st w)" "widgetKey (heap st w) = Some k" "k \<noteq> []"
  shows "\<not> hasInstance (onComplete w ce False st) k"
    "map_of (inputWidgetMap (onComplete w ce False st)) k = None"
    "destroyed (els (onComplete w ce False st) ce)"
    "paMounted (els (onComplete w ce False st) e) = paMounted (els st e)"
    "featuresEnabled (onComplete w ce False st) = featuresEnabled st"
    "vueNodesMode (onComplete w ce False st) = vueNodesMode st"
  using assms
  by (simp_all add: onComplete_def Let_def truthy_def render_def AList.delete_conv
      els_destroyContainer hasInstance_def)

lemma frame_bind [simp]:
  "instances (addDOMListener e t w st) = instances st"
  "instances (observeResize e w st) = instances st"
  "instances (addWindowResize w st) = instances st"
  "hasResizeObserver (addDOMListener e t w st) = hasResizeObserver st"
  "isMounting (heap (addDOMListener e t w st) x) = isMounting (heap st x)"
  "isMounting (heap (observeResize e w st) x) = isMounting (heap st x)"
  "isMounting (heap (addWindowResize w st) x) = isMounting (heap st x)"
  by (simp_all add: addDOMListener_def observeResize_def addWindowResize_def updW_def)

lemma frame_initializeInputElBindings [simp]:
  "instances (initializeInputElBindings w iw node i st) = instances st"
  "isMounting (heap (initializeInputElBindings w iw node i st) x) = isMounting (heap st x)"
  by (simp_all add: initializeInputElBindings_def Let_def split: option.splits)

lemma createAssistant_existing:
  assumes "hasInstance st (widgetKeyFor st node i ak)"
  shows "snd (createAssistant node i iw ak st) = st \<and>
    (fst (createAssistant node i iw ak st) = None \<or>
     fst (createAssistant node i iw ak st) = getInstance st (widgetKeyFor st node i ak))"
  using assms by (simp add: createAssistant_def Let_def)

lemma createAssistant_fresh:
  assumes "featuresEnabled st" "truthy i" "w_valid iw" "elOf iw \<noteq> None \<or> vueNodesMode st"
    "k \<noteq> []" "\<not> hasInstance st k"
  shows "fst (createAssistant node i iw (Some k) st) = Some (nextWid st)"
    "getInstance (snd (createAssistant node i iw (Some k) st)) k = Some (nextWid st)"
    "isMounting (heap (snd (createAssistant node i iw (Some k) st)) (nextWid st))"
  using assms
  by (auto simp add: createAssistant_def Let_def widgetKeyFor_def truthy_def render_def
      getInstance_def addInstance_def createAssistantUI_def AList.update_conv')

lemma marker_addDOMListener [simp]:
  "paMounted (els (addDOMListener e t w st) x) = paMounted (els st x)"
  "paWidgetKey (els (addDOMListener e t w st) x) = paWidgetKey (els st x)"
  "parentEl (els (addDOMListener e t w st) x) = parentEl (els st x)"
  "hosted (els (addDOMListener e t w st) x) = hosted (els st x)"
  "widgetKey (heap (addDOMListener e t w st) y) = widgetKey (heap st y)"
  "container (heap (addDOMListener e t w st) y) = container (heap st y)"
  "paMounted (els (observeResize e w st) x) = paMounted (els st x)"
  "paWidgetKey (els (observeResize e w st) x) = paWidgetKey (els st x)"
  "parentEl (els (observeResize e w st) x) = parentEl (els st x)"
  "hosted (els (observeResize e w st) x) = hosted (els st x)"
  "widgetKey (heap (observeResize e w st) y) = widgetKey (heap st y)"
  "container (heap (observeResize e w st) y) = container (heap st y)"
  by (simp_all add: addDOMListener_def observeResize_def updW_def updEl_def)

lemma marker_litegraphBind [simp]:
  "paMounted (els (litegraphBind w e st) x) = paMounted (els st x)"
  "paWidgetKey (els (litegraphBind w e st) x) = paWidgetKey (els st x)"
  "parentEl (els (litegraphBind w e st) x) = parentEl (els st x)"
  "hosted (els (litegraphBind w e st) x) = hosted (els st x)"
  "widgetKey (heap (litegraphBind w e st) y) = widgetKey (heap st y)"
  "container (heap (litegraphBind w e st) y) = container (heap st y)"
  "instances (litegraphBind w e st) = instances st"
  by (simp_all add: litegraphBind_def Let_def)

lemma marker_vueBind [simp]:
  "paMounted (els (vueBind w e st) x) = paMounted (els st x)"
  "paWidgetKey (els (vueBind w e st) x) = paWidgetKey (els st x)"
  "parentEl (els (vueBind w e st) x) = parentEl (els st x)"
  "hosted (els (vueBind w e st) x) = hosted (els st x)"
  "widgetKey (heap (vueBind w e st) y) = widgetKey (heap st y)"
  "container (heap (vueBind w e st) y) = container (heap st y)"
  "instances (vueBind w e st) = instances st"
  by (simp_all add: vueBind_def Let_def)

lemma marker_adoptTextarea [simp]:
  "widgetKey (heap (adoptTextarea t w st) y) = widgetKey (heap st y)"
  "container (heap (adoptTextarea t w st) y) = container (heap st y)"
  by (simp_all add: adoptTextarea_def)

lemma abort_effects:
  "(widgetKey (heap s w) = Some k \<and> k \<noteq> [] \<longrightarrow>
      \<not> hasInstance (destroyContainer co (dropRegistered w s)) k) \<and>
   (co = Some c \<longrightarrow> destroyed (els (destroyContainer co (dropRegistered w s)) c)) \<and>
   paMounted (els (destroyContainer co (dropRegistered w s)) x) = paMounted (els s x) \<and>
   paWidgetKey (els (destroyContainer co (dropRegistered w s)) x) = paWidgetKey (els s x) \<and>
   parentEl (els (destroyContainer co (dropRegistered w s)) x) = parentEl (els s x)"
  by (auto simp add: els_destroyContainer dropRegistered_def truthy_def render_def)

lemma litegraph_abort:
  assumes "litegraphTarget w info st = Some e" "paMounted (els st e)"
  shows "applyLitegraphPositioning w ce info st =
           (None, destroyContainer (container (heap st w))
              (dropRegistered w
                 (if inputEventsBound (heap st w) then adoptTextarea (ci_textarea info) w st
                  else litegraphBind w e (adoptTextarea (ci_textarea info) w st))))"
  using assms
  by (auto simp add: applyLitegraphPositioning_def Let_def)

lemma vue_abort:
  assumes "snd (vueLookup info st) = Some t" "paMounted (els st t)"
    "paWidgetKey (els st t) \<noteq> widgetKey (heap st w)"
  shows "applyVueNodesPositioning w ce info st =
           (None, destroyContainer (container (heap st w))
              (dropRegistered w
                 (if Some t \<noteq> inputEl (heap st w) then vueBind w t (adoptTextarea (Some t) w st)
                  else st)))"
  using assms
  by (auto simp add: applyVueNodesPositioning_def Let_def cleanupRedundantWidget_def)

lemma scan_guard:
  assumes "resolveKey (appGraph st) (els st) node vs iw = Inr key" "getInstance st key = None"
    "elOf iw = Some e" "paMounted (els st e)"
  shows "setupInput node vs iw st = (None, st)"
  using assms by (simp add: setupInput_def createGuarded_def)

lemma getAssistantKey_nonempty [simp]: "getAssistantKey g node i \<noteq> []"
  by (simp add: getAssistantKey_def Let_def)

lemma filter_eq_distinct:
  "distinct (map f xs) \<Longrightarrow> length (filter (\<lambda>x. f x = a) xs) \<le> 1"
proof (induction xs)
  case Nil
  then show ?case by simp
next
  case (Cons x xs)
  show ?case
  proof (cases "f x = a")
    case True
    with Cons.prems have "a \<notin> f ` set xs" by auto
    then have "filter (\<lambda>x. f x = a) xs = []" by (auto simp: filter_empty_conv)
    with True show ?thesis by simp
  next
    case False
    with Cons show ?thesis by simp
  qed
qed

lemma resolveKey_unique:
  assumes "distinct (map inputIdOf vs)"
  shows "resolveKey g es node vs iw = Inr (getAssistantKey g node (inputIdOf iw))"
proof -
  have "length (filter (\<lambda>w. inputIdOf w = inputIdOf iw) vs) \<le> 1"
    using assms by (rule filter_eq_distinct)
  then show ?thesis by (simp add: resolveKey_def Let_def)
qed

lemma frame3_bind [simp]:
  "nextWid (addDOMListener e t w st) = nextWid st"
  "nextWid (observeResize e w st) = nextWid st"
  "nextWid (addWindowResize w st) = nextWid st"
  "featuresEnabled (addDOMListener e t w st) = featuresEnabled st"
  "featuresEnabled (observeResize e w st) = featuresEnabled st"
  "featuresEnabled (addWindowResize w st) = featuresEnabled st"
  "appGraph (addDOMListener e t w st) = appGraph st"
  "appGraph (observeResize e w st) = appGraph st"
  "appGraph (addWindowResize w st) = appGraph st"
  "element (heap (addDOMListener e t w st) x) = element (heap st x)"
  "element (heap (observeResize e w st) x) = element (heap st x)"
  "element (heap (addWindowResize w st) x) = element (heap st x)"
  "els (addWindowResize w st) = els st"
  by (simp_all add: addDOMListener_def observeResize_def addWindowResize_def updW_def updEl_def)

lemma other_heap_bind:
  "x \<noteq> w \<Longrightarrow> heap (addDOMListener e t w st) x = heap st x"
  "x \<noteq> w \<Longrightarrow> heap (observeResize e w st) x = heap st x"
  "x \<noteq> w \<Longrightarrow> heap (addWindowResize w st) x = heap st x"
  by (simp_all add: addDOMListener_def observeResize_def addWindowResize_def updW_def)

lemma frame3_initializeInputElBindings [simp]:
  "nextWid (initializeInputElBindings w iw node i st) = nextWid st"
  "featuresEnabled (initializeInputElBindings w iw node i st) = featuresEnabled st"
  "appGraph (initializeInputElBindings w iw node i st) = appGraph st"
  "element (heap (initializeInputElBindings w iw node i st) x) = element (heap st x)"
  "parentEl (els (initializeInputElBindings w iw node i st) y) = parentEl (els st y)"
  "paMounted (els (initializeInputElBindings w iw node i st) y) = paMounted (els st y)"
  by (simp_all add: initializeInputElBindings_def Let_def split: option.splits)

lemma other_heap_initializeInputElBindings:
  "x \<noteq> w \<Longrightarrow> heap (initializeInputElBindings w iw node i st) x = heap st x"
  by (simp add: initializeInputElBindings_def Let_def other_heap_bind split: option.splits)

lemma createAssistant_fresh_state:
  assumes "featuresEnabled st" "truthy i" "w_valid iw" "elOf iw \<noteq> None \<or> vueNodesMode st"
    "k \<noteq> []" "\<not> hasInstance st k"
  shows "instances (snd (createAssistant node i iw (Some k) st)) =
           AList.update k (nextWid st) (instances st)"
    "nextWid (snd (createAssistant node i iw (Some k) st)) = Suc (nextWid st)"
    "isMounting (heap (snd (createAssistant node i iw (Some k) st)) (nextWid st))"
    "element (heap (snd (createAssistant node i iw (Some k) st)) (nextWid st)) = Some (nextEl st)"
    "x \<noteq> nextWid st \<Longrightarrow> heap (snd (createAssistant node i iw (Some k) st)) x = heap st x"
    "parentEl (els (snd (createAssistant node i iw (Some k) st)) y) =
       (if y = nextEl st then None else parentEl (els st y))"
    "paMounted (els (snd (createAssistant node i iw (Some k) st)) y) =
       (if y = nextEl st then False else paMounted (els st y))"
    "featuresEnabled (snd (createAssistant node i iw (Some k) st))"
    "appGraph (snd (createAssistant node i iw (Some k) st)) = appGraph st"
  using assms
  by (auto simp add: createAssistant_def Let_def widgetKeyFor_def truthy_def render_def
      addInstance_def createAssistantUI_def other_heap_initializeInputElBindings blankEl_def)

lemma frame4_createAssistant:
  assumes "featuresEnabled st" "truthy i" "w_valid iw" "elOf iw \<noteq> None \<or> vueNodesMode st"
    "k \<noteq> []" "\<not> hasInstance st k"
  shows "vueNodesMode (snd (createAssistant node i iw (Some k) st)) = vueNodesMode st"
    "svcVueMode (snd (createAssistant node i iw (Some k) st)) = svcVueMode st"
  using assms
  by (auto simp add: createAssistant_def Let_def widgetKeyFor_def truthy_def render_def
      addInstance_def createAssistantUI_def initializeInputElBindings_def
      addDOMListener_def observeResize_def addWindowResize_def split: option.splits)

lemma hasInstance_iff: "hasInstance st k \<longleftrightarrow> k \<in> set (map fst (instances st))"
  by (simp add: hasInstance_def map_of_eq_None_iff)

lemma create_step:
  assumes en: "featuresEnabled st" and d: "distinct (map inputIdOf vs)"
    and t: "truthy (inputIdOf iw)" and v: "w_valid iw"
    and e: "elOf iw = Some e" and m: "\<not> paMounted (els st e)"
    and h: "\<not> hasInstance st (getAssistantKey (appGraph st) node (inputIdOf iw))"
  shows "\<exists>iw'. w_valid iw' \<and> elOf iw' \<noteq> None \<and>
           setupInput node vs iw st =
             (None, snd (createAssistant node (inputIdOf iw) iw'
                (Some (getAssistantKey (appGraph st) node (inputIdOf iw))) st))"
proof -
  let ?key = "getAssistantKey (appGraph st) node (inputIdOf iw)"
  let ?iw' = "if isMarkdownNode node
             then iw\<lparr>w_inputEl :=
                    (case w_element iw of Some e \<Rightarrow> Some e | None \<Rightarrow> w_inputEl iw)\<rparr>
             else iw"
  have r: "resolveKey (appGraph st) (els st) node vs iw = Inr ?key"
    using d by (rule resolveKey_unique)
  from h have g: "getInstance st ?key = None" by (simp add: hasInstance_def getInstance_def)
  from t have i: "js_or (js_or (w_name iw) (w_id iw)) (Some (rand st)) = inputIdOf iw"
    by (simp add: inputIdOf_def js_or_def)
  have "setupInput node vs iw st =
          (None, snd (createAssistant node (inputIdOf iw) ?iw' (Some ?key) st))"
    using en e m by (simp add: setupInput_def r g createGuarded_def setupNodeAssistant_def i Let_def)
  moreover have "w_valid ?iw'" using v by simp
  moreover have "elOf ?iw' \<noteq> None" using e by (auto simp add: elOf_def split: option.splits)
  ultimately show ?thesis by blast
qed

lemma mountingEntry_created:
  assumes "featuresEnabled st" "truthy i" "w_valid iw" "elOf iw \<noteq> None \<or> vueNodesMode st"
    "k \<noteq> []" "\<not> hasInstance st k"
  shows "mountingEntry (snd (createAssistant node i iw (Some k) st)) k"
  using createAssistant_fresh_state(1,2,3,4,6) [OF assms]
  by (simp add: mountingEntry_def getInstance_def AList.update_conv')

lemma mountingEntry_kept:
  assumes "featuresEnabled st" "truthy i" "w_valid iw" "elOf iw \<noteq> None \<or> vueNodesMode st"
    "k \<noteq> []" "\<not> hasInstance st k" and me: "mountingEntry st k'"
  shows "mountingEntry (snd (createAssistant node i iw (Some k) st)) k'"
proof -
  note f = createAssistant_fresh_state [OF assms(1-6)]
  from me obtain w where w: "getInstance st k' = Some w" "w < nextWid st"
    "isMounting (heap st w)"
    by (auto simp add: mountingEntry_def split: option.splits)
  from me w obtain ui where ui: "element (heap st w) = Some ui" "parentEl (els st ui) = None"
    by (auto simp add: mountingEntry_def split: option.splits)
  from w(1) assms(6) have ne: "k' \<noteq> k" by (auto simp add: hasInstance_def getInstance_def)
  from w(2) have wn: "w \<noteq> nextWid st" by simp
  have "getInstance (snd (createAssistant node i iw (Some k) st)) k' = Some w"
    using w(1) ne by (simp add: getInstance_def f(1) AList.update_conv')
  moreover have "heap (snd (createAssistant node i iw (Some k) st)) w = heap st w"
    using wn by (rule f(5))
  ultimately show ?thesis using w ui
    by (simp add: mountingEntry_def f(2) f(6))
qed

lemma skip_step:
  assumes "resolveKey (appGraph st) (els st) node vs iw = Inr key" "mountingEntry st key"
  shows "setupInput node vs iw st = (None, st)"
  using assms
  by (auto simp add: setupInput_def mountingEntry_def uiPresent_def Let_def split: option.splits)

lemma scan_skips:
  assumes "distinct (map inputIdOf vs)"
    "\<forall>iw\<in>set rest. mountingEntry st (getAssistantKey (appGraph st) node (inputIdOf iw))"
  shows "scanInputs node vs rest st = (None, st)"
  using assms(2)
proof (induction rest)
  case Nil
  then show ?case by simp
next
  case (Cons iw rest)
  have "setupInput node vs iw st = (None, st)"
    using skip_step [OF resolveKey_unique [OF assms(1)]] Cons.prems by simp
  with Cons show ?case by simp
qed

lemma scan_creates:
  assumes d: "distinct (map inputIdOf vs)"
  shows "featuresEnabled st \<Longrightarrow>
    distinct (map (\<lambda>iw. getAssistantKey (appGraph st) node (inputIdOf iw)) rest) \<Longrightarrow>
    \<forall>iw\<in>set rest. truthy (inputIdOf iw) \<and> w_valid iw \<and>
       (\<exists>e. elOf iw = Some e \<and> \<not> paMounted (els st e)) \<and>
       \<not> hasInstance st (getAssistantKey (appGraph st) node (inputIdOf iw)) \<Longrightarrow>
    fst (scanInputs node vs rest st) = None \<and>
    map fst (instances (snd (scanInputs node vs rest st))) =
      map fst (instances st) @
      map (\<lambda>iw. getAssistantKey (appGraph st) node (inputIdOf iw)) rest \<and>
    (\<forall>iw\<in>set rest. mountingEntry (snd (scanInputs node vs rest st))
        (getAssistantKey (appGraph st) node (inputIdOf iw))) \<and>
    (\<forall>k. mountingEntry st k \<longrightarrow> mountingEntry (snd (scanInputs node vs rest st)) k) \<and>
    featuresEnabled (snd (scanInputs node vs rest st)) \<and>
    appGraph (snd (scanInputs node vs rest st)) = appGraph st \<and>
    vueNodesMode (snd (scanInputs node vs rest st)) = vueNodesMode st"
proof (induction rest arbitrary: st)
  case Nil
  then show ?case by simp
next
  case (Cons iw rest)
  let ?key = "\<lambda>iw. getAssistantKey (appGraph st) node (inputIdOf iw)"
  from Cons.prems(3) obtain e where iw: "truthy (inputIdOf iw)" "w_valid iw"
    "elOf iw = Some e" "\<not> paMounted (els st e)" "\<not> hasInstance st (?key iw)"
    by auto
  from create_step [OF Cons.prems(1) d iw] obtain iw' where
    iw': "w_valid iw'" "elOf iw' \<noteq> None"
    and eq: "setupInput node vs iw st =
      (None, snd (createAssistant node (inputIdOf iw) iw' (Some (?key iw)) st))"
    by blast
  let ?s1 = "snd (createAssistant node (inputIdOf iw) iw' (Some (?key iw)) st)"
  have pre: "featuresEnabled st" "truthy (inputIdOf iw)" "w_valid iw'"
    "elOf iw' \<noteq> None \<or> vueNodesMode st" "?key iw \<noteq> []" "\<not> hasInstance st (?key iw)"
    using Cons.prems(1) iw iw' by simp_all
  note f = createAssistant_fresh_state [OF pre]
  note f4 = frame4_createAssistant [OF pre]
  have sc: "scanInputs node vs (iw # rest) st = scanInputs node vs rest ?s1"
    by (simp add: eq)
  have g: "appGraph ?s1 = appGraph st" by (rule f(9))
  have en1: "featuresEnabled ?s1" by (rule f(8))
  have d1: "distinct (map (\<lambda>iw. getAssistantKey (appGraph ?s1) node (inputIdOf iw)) rest)"
    using Cons.prems(2) by (simp add: g)
  have h1: "\<forall>iw\<in>set rest. truthy (inputIdOf iw) \<and> w_valid iw \<and>
       (\<exists>e. elOf iw = Some e \<and> \<not> paMounted (els ?s1 e)) \<and>
       \<not> hasInstance ?s1 (getAssistantKey (appGraph ?s1) node (inputIdOf iw))"
  proof
    fix x assume x: "x \<in> set rest"
    with Cons.prems(3) obtain ex where xx: "truthy (inputIdOf x)" "w_valid x"
      "elOf x = Some ex" "\<not> paMounted (els st ex)" "\<not> hasInstance st (?key x)"
      by auto
    from Cons.prems(2) have "?key iw \<notin> ?key ` set rest" by simp
    with x have ne: "?key x \<noteq> ?key iw" by (metis imageI)
    have "\<not> paMounted (els ?s1 ex)" using xx(4) by (simp add: f(7))
    moreover have "\<not> hasInstance ?s1 (?key x)"
      using xx(5) ne by (simp add: hasInstance_def f(1) AList.update_conv')
    ultimately show "truthy (inputIdOf x) \<and> w_valid x \<and>
       (\<exists>e. elOf x = Some e \<and> \<not> paMounted (els ?s1 e)) \<and>
       \<not> hasInstance ?s1 (getAssistantKey (appGraph ?s1) node (inputIdOf x))"
      using xx by (simp add: g)
  qed
  note IH = Cons.IH [OF en1 d1 h1]
  let ?s' = "snd (scanInputs node vs rest ?s1)"
  from iw(5) have nk: "?key iw \<notin> set (map fst (instances st))" by (simp add: hasInstance_iff)
  have k1: "map fst (instances ?s1) = map fst (instances st) @ [?key iw]"
    using nk by (simp add: f(1) AList.update_keys)
  have m1: "mountingEntry ?s1 (?key iw)" by (rule mountingEntry_created [OF pre])
  have mk: "\<And>k. mountingEntry st k \<Longrightarrow> mountingEntry ?s1 k"
    by (rule mountingEntry_kept [OF pre])
  show ?case unfolding sc using IH m1 mk k1 by (simp add: g f4)
qed

lemma distinct_map_comp: "distinct (map (\<lambda>x. h (f x)) xs) \<Longrightarrow> distinct (map f xs)"
  by (induction xs) auto

lemma scan_twice:
  assumes en: "featuresEnabled st" and ws: "n_widgets node = Some ws"
    and vn: "isValidNode (vueNodesMode st) node" and ne: "filter w_valid ws \<noteq> []"
    and dk: "distinct (map (\<lambda>iw. getAssistantKey (appGraph st) node (inputIdOf iw))
                         (filter w_valid ws))"
    and h: "\<forall>iw\<in>set (filter w_valid ws). truthy (inputIdOf iw) \<and>
       (\<exists>e. elOf iw = Some e \<and> \<not> paMounted (els st e)) \<and>
       \<not> hasInstance st (getAssistantKey (appGraph st) node (inputIdOf iw))"
  shows "fst (checkAndSetupNode view node st) = None \<and>
    checkAndSetupNode view node (snd (checkAndSetupNode view node st)) =
      (None, snd (checkAndSetupNode view node st)) \<and>
    map fst (instances (snd (checkAndSetupNode view node st))) =
      map fst (instances st) @
      map (\<lambda>iw. getAssistantKey (appGraph st) node (inputIdOf iw)) (filter w_valid ws)"
proof -
  let ?vs = "filter w_valid ws"
  have d: "distinct (map inputIdOf ?vs)"
    using dk unfolding getAssistantKey_def Let_def
    by (rule distinct_map_comp [where h = "\<lambda>i. _ @ ''_'' @ n_id node @ ''_'' @ render i"])
  have c1: "checkAndSetupNode view node st = scanInputs node ?vs ?vs st"
    using en ws vn ne by (simp add: checkAndSetupNode_def Let_def)
  have h': "\<forall>iw\<in>set ?vs. truthy (inputIdOf iw) \<and> w_valid iw \<and>
       (\<exists>e. elOf iw = Some e \<and> \<not> paMounted (els st e)) \<and>
       \<not> hasInstance st (getAssistantKey (appGraph st) node (inputIdOf iw))"
    using h by auto
  note S = scan_creates [OF d en dk h']
  let ?s1 = "snd (scanInputs node ?vs ?vs st)"
  have c2: "checkAndSetupNode view node ?s1 = scanInputs node ?vs ?vs ?s1"
    using S ws vn ne by (simp add: checkAndSetupNode_def Let_def)
  have "\<forall>iw\<in>set ?vs. mountingEntry ?s1 (getAssistantKey (appGraph ?s1) node (inputIdOf iw))"
    using S by simp
  from scan_skips [OF d this] have "scanInputs node ?vs ?vs ?s1 = (None, ?s1)" .
  with S show ?thesis by (simp add: c1 c2)
qed

lemma scan_noop:
  assumes "resolveKey (appGraph st) (els st) node vs iw = Inr key"
    "getInstance st key = Some w" "element (heap st w) = Some ui"
    "uiPresent st node (Some ui)"
    "text_element (heap st w) = None \<or> w_inputEl iw = None \<or>
     text_element (heap st w) = w_inputEl iw \<or>
     (\<exists>e. text_element (heap st w) = Some e \<and> inBody (els st e))"
  shows "setupInput node vs iw st = (None, st)"
  using assms by (auto simp add: setupInput_def Let_def)

text \<open>
  Claim C5. Event binding is exactly once per element: a second call of the bind path
  for the same element, from any code path, attaches nothing, because a guard flag on the
  element prevents it. On the code the guard that is consulted is the flag
  \<^verbatim>\<open>_inputEventsBound\<close> of the assistant object; the flag on the element is set but not
  read by \<^verbatim>\<open>_initializeInputElBindings\<close>. When a mount has failed and the next scan
  creates a new assistant for the same input, the element, whose flag is set, receives a
  second set of listeners and a second resize observer.
\<close>

theorem element_flag_does_not_guard:
  "paBound (els stDiscarded 1) \<and>
   listeners (els stDiscarded 1) = [(''blur'', 0), (''input'', 0)] \<and>
   observers (els stDiscarded 1) = [0] \<and>
   listeners (els stRetried 1) =
     [(''blur'', 0), (''input'', 0), (''blur'', 1), (''input'', 1)] \<and>
   observers (els stRetried 1) = [0, 1]"
  by code_simp

text \<open>
  Claim C5, amended. Event binding is once per assistant object: both bind paths (the
  initial binding and the fallback in the LiteGraph positioning) set the flag
  \<^verbatim>\<open>_inputEventsBound\<close> of the assistant when they bind, and for an assistant whose flag
  is set neither path attaches a listener or an observer to any element or to the
  window.
\<close>

theorem bind_once_per_assistant:
  "(w_inputEl iw \<noteq> None \<or> inputEl (heap st w) \<noteq> None \<longrightarrow>
      inputEventsBound (heap (initializeInputElBindings w iw node i st) w)) \<and>
   (litegraphTarget w info st \<noteq> None \<longrightarrow>
      inputEventsBound (heap (snd (applyLitegraphPositioning w ce info st)) w)) \<and>
   (inputEventsBound (heap st w) \<longrightarrow>
      bindingsOf (initializeInputElBindings w iw node i st) = bindingsOf st \<and>
      bindingsOf (snd (applyLitegraphPositioning w ce info st)) = bindingsOf st)"
  using bound_after_initial [of iw st w node i] bound_after_litegraph [of w info st ce]
    bind_once_initial [of st w iw node i] bind_once_litegraph [of st w ce info]
  by blast

theorem bind_once_per_assistant_witness:
  "inputEventsBound (heap stMounting 0) \<and>
   listeners (els stMounting 1) = [(''blur'', 0), (''input'', 0)] \<and>
   bindingsOf (initializeInputElBindings 0 (textWidget ''text'' 1) oneInput (Some ''text'')
      stMounting) = bindingsOf stMounting \<and>
   bindingsOf (snd (applyLitegraphPositioning 0 100 infoLg stMounting)) =
     bindingsOf stMounting \<and>
   listeners (els (snd (applyLitegraphPositioning 0 100 infoLg stMounting)) 1) =
     [(''blur'', 0), (''input'', 0)]"
proof -
  have ev: "inputEventsBound (heap stMounting 0)"
    "listeners (els stMounting 1) = [(''blur'', 0), (''input'', 0)]"
    "listeners (els (snd (applyLitegraphPositioning 0 100 infoLg stMounting)) 1) =
       [(''blur'', 0), (''input'', 0)]"
    by code_simp+
  from bind_once_per_assistant [where st = stMounting and w = 0
      and iw = "textWidget ''text'' 1" and node = oneInput and i = "Some ''text''"
      and info = infoLg and ce = 100] ev(1)
  have "bindingsOf (initializeInputElBindings 0 (textWidget ''text'' 1) oneInput (Some ''text'')
      stMounting) = bindingsOf stMounting \<and>
    bindingsOf (snd (applyLitegraphPositioning 0 100 infoLg stMounting)) =
      bindingsOf stMounting" by blast
  with ev show ?thesis by blast
qed

text \<open>
  Claim C4. When the mount retries are exhausted the candidate is discarded and is never
  registered: no entry for its key ever appears in the registry. On the code the
  candidate is registered by \<^verbatim>\<open>createAssistant\<close> as soon as it is created, with its
  \<^verbatim>\<open>_isMounting\<close> flag set, and the failing callback removes the entry.
\<close>

theorem candidate_registered_while_mounting:
  "\<not> hasInstance st0 ''main_5_text'' \<and> hasInstance stMounting ''main_5_text'' \<and>
   isMounting (heap stMounting 0) \<and> \<not> hasInstance stDiscarded ''main_5_text''"
  by code_simp

text \<open>
  Claim C4, amended. A candidate is registered while it is mounting. When the retries
  are exhausted (the positioning callback reports failure) for a candidate that has not
  been destroyed, the candidate is discarded: its container is destroyed and its entries
  leave the registry and the global input map, no mount marker is changed, and the input
  is eligible again: the next attempt to create an assistant for the key registers a
  fresh candidate.
\<close>

theorem mount_failure_discards:
  assumes "\<not> isDestroyed (heap st w)" and "widgetKey (heap st w) = Some k" and "k \<noteq> []"
  shows "containerFound w ce None st = onComplete w ce False st \<and>
         \<not> hasInstance (containerFound w ce None st) k \<and>
         map_of (inputWidgetMap (containerFound w ce None st)) k = None \<and>
         destroyed (els (containerFound w ce None st) ce) \<and>
         (\<forall>e. paMounted (els (containerFound w ce None st) e) = paMounted (els st e)) \<and>
         (featuresEnabled st \<and> truthy i \<and> w_valid iw \<and> (elOf iw \<noteq> None \<or> vueNodesMode st) \<longrightarrow>
            mountingEntry
              (snd (createAssistant node i iw (Some k) (containerFound w ce None st))) k)"
proof -
  have c: "containerFound w ce None st = onComplete w ce False st"
    by (simp add: containerFound_def)
  note f = mount_failure [OF assms, of ce]
  have "mountingEntry (snd (createAssistant node i iw (Some k) (onComplete w ce False st))) k"
    if "featuresEnabled st" "truthy i" "w_valid iw" "elOf iw \<noteq> None \<or> vueNodesMode st"
    using that f(1) assms(3) by (intro mountingEntry_created) (simp_all add: f(5) f(6))
  with f(1-4) show ?thesis unfolding c by blast
qed

theorem mount_failure_discards_witness:
  "\<not> isDestroyed (heap stMounting 0) \<and> widgetKey (heap stMounting 0) = Some ''main_5_text'' \<and>
   hasInstance stMounting ''main_5_text'' \<and>
   \<not> hasInstance stDiscarded ''main_5_text'' \<and>
   map_of (inputWidgetMap stDiscarded) ''main_5_text'' = None \<and>
   destroyed (els stDiscarded 100) \<and>
   mountingEntry
     (snd (createAssistant oneInput (Some ''text'') (textWidget ''text'' 1)
        (Some ''main_5_text'') stDiscarded)) ''main_5_text''"
proof -
  have ev: "\<not> isDestroyed (heap stMounting 0)"
    "widgetKey (heap stMounting 0) = Some ''main_5_text''"
    "hasInstance stMounting ''main_5_text''"
    "featuresEnabled stMounting" "truthy (Some ''text'')" "w_valid (textWidget ''text'' 1)"
    "elOf (textWidget ''text'' 1) \<noteq> None"
    by code_simp+
  have k: "''main_5_text'' \<noteq> []" by simp
  from mount_failure_discards [OF ev(1) ev(2) k, of 100 "Some ''text''" "textWidget ''text'' 1"
      oneInput] ev
  show ?thesis unfolding stDiscarded_def by blast
qed

text \<open>
  Claim C2. An input element is claimed by at most one instance through the mount marker
  on the element: when a mount attempt finds its target element carrying a mount marker
  for a different key it aborts quietly. In both positioning functions the candidate
  leaves the registry, its container is destroyed, nothing is appended, and the marker
  and the key on the element stay as they were; the scan of a node and the scan of the
  DOM do not start an attempt on a claimed element.
\<close>

theorem first_claim_wins:
  "(litegraphTarget w info st = Some e \<and> paMounted (els st e) \<and>
      paWidgetKey (els st e) \<noteq> widgetKey (heap st w) \<longrightarrow>
      fst (applyLitegraphPositioning w ce info st) = None \<and>
      (\<forall>k. widgetKey (heap st w) = Some k \<and> k \<noteq> [] \<longrightarrow>
         \<not> hasInstance (snd (applyLitegraphPositioning w ce info st)) k) \<and>
      (\<forall>c. container (heap st w) = Some c \<longrightarrow>
         destroyed (els (snd (applyLitegraphPositioning w ce info st)) c)) \<and>
      paMounted (els (snd (applyLitegraphPositioning w ce info st)) e) \<and>
      paWidgetKey (els (snd (applyLitegraphPositioning w ce info st)) e) = paWidgetKey (els st e) \<and>
      parentEl (els (snd (applyLitegraphPositioning w ce info st)) ce) = parentEl (els st ce)) \<and>
   (snd (vueLookup info st) = Some e \<and> paMounted (els st e) \<and>
      paWidgetKey (els st e) \<noteq> widgetKey (heap st w) \<longrightarrow>
      fst (applyVueNodesPositioning w ce info st) = None \<and>
      (\<forall>k. widgetKey (heap st w) = Some k \<and> k \<noteq> [] \<longrightarrow>
         \<not> hasInstance (snd (applyVueNodesPositioning w ce info st)) k) \<and>
      (\<forall>c. container (heap st w) = Some c \<longrightarrow>
         destroyed (els (snd (applyVueNodesPositioning w ce info st)) c)) \<and>
      paMounted (els (snd (applyVueNodesPositioning w ce info st)) e) \<and>
      paWidgetKey (els (snd (applyVueNodesPositioning w ce info st)) e) = paWidgetKey (els st e) \<and>
      parentEl (els (snd (applyVueNodesPositioning w ce info st)) ce) = parentEl (els st ce)) \<and>
   (resolveKey (appGraph st) (els st) node vs iw = Inr key \<and> getInstance st key = None \<and>
      elOf iw = Some e \<and> paMounted (els st e) \<longrightarrow>
      setupInput node vs iw st = (None, st)) \<and>
   (getInstance st (getAssistantKey (appGraph st) node (Some inp)) = None \<and>
      paMounted (els st e) \<longrightarrow>
      mountDomAssistant view node e inp st = st)"
proof (intro conjI impI)
  assume a: "litegraphTarget w info st = Some e \<and> paMounted (els st e) \<and>
      paWidgetKey (els st e) \<noteq> widgetKey (heap st w)"
  let ?s = "if inputEventsBound (heap st w) then adoptTextarea (ci_textarea info) w st
            else litegraphBind w e (adoptTextarea (ci_textarea info) w st)"
  from a have eq: "applyLitegraphPositioning w ce info st =
      (None, destroyContainer (container (heap st w)) (dropRegistered w ?s))"
    using litegraph_abort by blast
  have fr: "widgetKey (heap ?s w) = widgetKey (heap st w)"
    "paMounted (els ?s x) = paMounted (els st x)"
    "paWidgetKey (els ?s x) = paWidgetKey (els st x)"
    "parentEl (els ?s x) = parentEl (els st x)" for x
    by simp_all
  note ae = abort_effects [of ?s w _ "container (heap st w)"]
  show "fst (applyLitegraphPositioning w ce info st) = None" by (simp add: eq)
  show "\<forall>k. widgetKey (heap st w) = Some k \<and> k \<noteq> [] \<longrightarrow>
         \<not> hasInstance (snd (applyLitegraphPositioning w ce info st)) k"
    unfolding eq snd_conv using ae fr(1) by metis
  show "\<forall>c. container (heap st w) = Some c \<longrightarrow>
         destroyed (els (snd (applyLitegraphPositioning w ce info st)) c)"
    unfolding eq snd_conv using ae by blast
  show "paMounted (els (snd (applyLitegraphPositioning w ce info st)) e)"
    unfolding eq snd_conv using ae [of _ _ e] fr(2) [of e] a by metis
  show "paWidgetKey (els (snd (applyLitegraphPositioning w ce info st)) e) = paWidgetKey (els st e)"
    unfolding eq snd_conv using ae [of _ _ e] fr(3) [of e] by metis
  show "parentEl (els (snd (applyLitegraphPositioning w ce info st)) ce) = parentEl (els st ce)"
    unfolding eq snd_conv using ae [of _ _ ce] fr(4) [of ce] by metis
next
  assume a: "snd (vueLookup info st) = Some e \<and> paMounted (els st e) \<and>
      paWidgetKey (els st e) \<noteq> widgetKey (heap st w)"
  let ?s = "if Some e \<noteq> inputEl (heap st w) then vueBind w e (adoptTextarea (Some e) w st)
            else st"
  from a have eq: "applyVueNodesPositioning w ce info st =
      (None, destroyContainer (container (heap st w)) (dropRegistered w ?s))"
    using vue_abort by blast
  have fr: "widgetKey (heap ?s w) = widgetKey (heap st w)"
    "paMounted (els ?s x) = paMounted (els st x)"
    "paWidgetKey (els ?s x) = paWidgetKey (els st x)"
    "parentEl (els ?s x) = parentEl (els st x)" for x
    by simp_all
  note ae = abort_effects [of ?s w _ "container (heap st w)"]
  show "fst (applyVueNodesPositioning w ce info st) = None" by (simp add: eq)
  show "\<forall>k. widgetKey (heap st w) = Some k \<and> k \<noteq> [] \<longrightarrow>
         \<not> hasInstance (snd (applyVueNodesPositioning w ce info st)) k"
    unfolding eq snd_conv using ae fr(1) by metis
  show "\<forall>c. container (heap st w) = Some c \<longrightarrow>
         destroyed (els (snd (applyVueNodesPositioning w ce info st)) c)"
    unfolding eq snd_conv using ae by blast
  show "paMounted (els (snd (applyVueNodesPositioning w ce info st)) e)"
    unfolding eq snd_conv using ae [of _ _ e] fr(2) [of e] a by metis
  show "paWidgetKey (els (snd (applyVueNodesPositioning w ce info st)) e) = paWidgetKey (els st e)"
    unfolding eq snd_conv using ae [of _ _ e] fr(3) [of e] by metis
  show "parentEl (els (snd (applyVueNodesPositioning w ce info st)) ce) = parentEl (els st ce)"
    unfolding eq snd_conv using ae [of _ _ ce] fr(4) [of ce] by metis
next
  assume "resolveKey (appGraph st) (els st) node vs iw = Inr key \<and> getInstance st key = None \<and>
      elOf iw = Some e \<and> paMounted (els st e)"
  then show "setupInput node vs iw st = (None, st)" using scan_guard by blast
next
  assume "getInstance st (getAssistantKey (appGraph st) node (Some inp)) = None \<and>
      paMounted (els st e)"
  then show "mountDomAssistant view node e inp st = st"
    by (simp add: mountDomAssistant_def Let_def)
qed

theorem first_claim_wins_witness:
  "litegraphTarget 1 infoLg stRace = Some 1 \<and> snd (vueLookup infoVue stRace) = Some 1 \<and>
   paMounted (els stRace 1) \<and> paWidgetKey (els stRace 1) = Some ''main_5_text'' \<and>
   widgetKey (heap stRace 1) = Some ''main_5_prompt'' \<and> container (heap stRace 1) = Some 101 \<and>
   hasInstance stRace ''main_5_prompt'' \<and>
   \<not> hasInstance (snd (applyLitegraphPositioning 1 101 infoLg stRace)) ''main_5_prompt'' \<and>
   destroyed (els (snd (applyLitegraphPositioning 1 101 infoLg stRace)) 101) \<and>
   paWidgetKey (els (snd (applyLitegraphPositioning 1 101 infoLg stRace)) 1) =
     Some ''main_5_text'' \<and>
   \<not> hasInstance (snd (applyVueNodesPositioning 1 101 infoVue stRace)) ''main_5_prompt'' \<and>
   destroyed (els (snd (applyVueNodesPositioning 1 101 infoVue stRace)) 101) \<and>
   paWidgetKey (els (snd (applyVueNodesPositioning 1 101 infoVue stRace)) 1) =
     Some ''main_5_text'' \<and>
   setupInput (nodeWith [textWidget ''prompt'' 1]) [textWidget ''prompt'' 1]
     (textWidget ''prompt'' 1) stOp = (None, stOp) \<and>
   mountDomAssistant noView (nodeWith []) 1 ''prompt'' stOp = stOp"
proof -
  have ev: "litegraphTarget 1 infoLg stRace = Some 1"
    "snd (vueLookup infoVue stRace) = Some 1"
    "paMounted (els stRace 1)" "paWidgetKey (els stRace 1) = Some ''main_5_text''"
    "widgetKey (heap stRace 1) = Some ''main_5_prompt''"
    "container (heap stRace 1) = Some 101"
    "hasInstance stRace ''main_5_prompt''"
    by code_simp+
  have sc: "resolveKey (appGraph stOp) (els stOp) (nodeWith [textWidget ''prompt'' 1])
      [textWidget ''prompt'' 1] (textWidget ''prompt'' 1) = Inr ''main_5_prompt''"
    "getInstance stOp ''main_5_prompt'' = None"
    "elOf (textWidget ''prompt'' 1) = Some 1" "paMounted (els stOp 1)"
    "getAssistantKey (appGraph stOp) (nodeWith []) (Some ''prompt'') = ''main_5_prompt''"
    by code_simp+
  have ne: "paWidgetKey (els stRace 1) \<noteq> widgetKey (heap stRace 1)"
    unfolding ev(4) ev(5) by simp
  have k: "''main_5_prompt'' \<noteq> []" by simp
  note T1 = first_claim_wins [where st = stRace and w = 1 and info = infoLg and e = 1
      and ce = 101]
  note T2 = first_claim_wins [where st = stRace and w = 1 and info = infoVue and e = 1
      and ce = 101]
  note T3 = first_claim_wins [where st = stOp and e = 1 and iw = "textWidget ''prompt'' 1"
      and node = "nodeWith [textWidget ''prompt'' 1]" and vs = "[textWidget ''prompt'' 1]"
      and key = "''main_5_prompt''"]
  note T4 = first_claim_wins [where st = stOp and e = 1 and node = "nodeWith []"
      and inp = "''prompt''" and view = noView]
  from T1 ev ne k have a: "\<not> hasInstance (snd (applyLitegraphPositioning 1 101 infoLg stRace)) ''main_5_prompt'' \<and>
   destroyed (els (snd (applyLitegraphPositioning 1 101 infoLg stRace)) 101) \<and>
   paWidgetKey (els (snd (applyLitegraphPositioning 1 101 infoLg stRace)) 1) =
     Some ''main_5_text''" by metis
  from T2 ev ne k have b: "\<not> hasInstance (snd (applyVueNodesPositioning 1 101 infoVue stRace)) ''main_5_prompt'' \<and>
   destroyed (els (snd (applyVueNodesPositioning 1 101 infoVue stRace)) 101) \<and>
   paWidgetKey (els (snd (applyVueNodesPositioning 1 101 infoVue stRace)) 1) =
     Some ''main_5_text''" by metis
  from T3 sc have c: "setupInput (nodeWith [textWidget ''prompt'' 1]) [textWidget ''prompt'' 1]
     (textWidget ''prompt'' 1) stOp = (None, stOp)" by blast
  from T4 sc have d: "mountDomAssistant noView (nodeWith []) 1 ''prompt'' stOp = stOp"
    by metis
  from ev a b c d show ?thesis by blast
qed

text \<open>
  Claim C1. For every key at most one instance is registered: when \<^verbatim>\<open>checkAndSetupNode\<close>
  or \<^verbatim>\<open>createAssistant\<close> is invoked for a key that has a live instance whose UI is still
  attached, no second instance is created and the existing one is left unchanged; and two
  scans in succession leave exactly one instance per valid input. As stated this fails
  for the scan: when the host has replaced the textarea and the bound one has left the
  document, the scan tears the instance down, although its UI is attached, and creates a
  new one; and a valid input whose element is claimed by another key has no instance
  after two scans.
\<close>

theorem attached_instance_rebuilt:
  "getInstance stReplaced ''main_5_text'' = Some 0 \<and> element (heap stReplaced 0) = Some 100 \<and>
   uiPresent stReplaced (nodeWith [textWidget ''text'' 2]) (Some 100) \<and>
   fst (checkAndSetupNode noView (nodeWith [textWidget ''text'' 2]) stReplaced) = None \<and>
   getInstance (snd (checkAndSetupNode noView (nodeWith [textWidget ''text'' 2]) stReplaced))
     ''main_5_text'' = Some 1 \<and>
   widgetKey (heap (snd (checkAndSetupNode noView (nodeWith [textWidget ''text'' 2]) stReplaced)) 0)
     = None \<and>
   parentEl (els (snd (checkAndSetupNode noView (nodeWith [textWidget ''text'' 2]) stReplaced)) 100)
     = None \<and>
   w_valid (textWidget ''prompt'' 1) \<and>
   \<not> hasInstance
      (snd (checkAndSetupNode noView (nodeWith [textWidget ''prompt'' 1])
         (snd (checkAndSetupNode noView (nodeWith [textWidget ''prompt'' 1]) stOp))))
      ''main_5_prompt''"
  by code_simp

text \<open>
  Claim C1, amended. The registry maps a key to at most one instance. When the scan
  reaches an input whose key has an instance with its UI attached, and the instance's
  input element is the widget's current one or is still in the document, the scan changes
  nothing; \<^verbatim>\<open>createAssistant\<close> for a key that has an instance changes nothing and
  returns that instance, or nothing when its own checks fail. For a valid node whose valid
  inputs have distinct keys, names and unclaimed elements and no instance yet, the first
  scan registers one candidate per valid input, in order, and a second scan in succession
  changes nothing.
\<close>

theorem one_instance_per_key:
  "(resolveKey (appGraph st) (els st) node vs iw = Inr key \<and> getInstance st key = Some w \<and>
      element (heap st w) = Some ui \<and> uiPresent st node (Some ui) \<and>
      (text_element (heap st w) = None \<or> w_inputEl iw = None \<or>
       text_element (heap st w) = w_inputEl iw \<or>
       (\<exists>e. text_element (heap st w) = Some e \<and> inBody (els st e))) \<longrightarrow>
      setupInput node vs iw st = (None, st)) \<and>
   (hasInstance st (widgetKeyFor st node i ak) \<longrightarrow>
      snd (createAssistant node i iw ak st) = st \<and>
      (fst (createAssistant node i iw ak st) = None \<or>
       fst (createAssistant node i iw ak st) = getInstance st (widgetKeyFor st node i ak))) \<and>
   (featuresEnabled st \<and> n_widgets node = Some ws \<and> isValidNode (vueNodesMode st) node \<and>
      filter w_valid ws \<noteq> [] \<and>
      distinct (map (\<lambda>iw. getAssistantKey (appGraph st) node (inputIdOf iw))
                  (filter w_valid ws)) \<and>
      (\<forall>iw\<in>set (filter w_valid ws). truthy (inputIdOf iw) \<and>
         (\<exists>e. elOf iw = Some e \<and> \<not> paMounted (els st e)) \<and>
         \<not> hasInstance st (getAssistantKey (appGraph st) node (inputIdOf iw))) \<longrightarrow>
      fst (checkAndSetupNode view node st) = None \<and>
      checkAndSetupNode view node (snd (checkAndSetupNode view node st)) =
        (None, snd (checkAndSetupNode view node st)) \<and>
      map fst (instances (snd (checkAndSetupNode view node st))) =
        map fst (instances st) @
        map (\<lambda>iw. getAssistantKey (appGraph st) node (inputIdOf iw)) (filter w_valid ws))"
  using scan_noop [of st node vs iw key w ui] createAssistant_existing [of st node i ak iw]
    scan_twice [of st node ws view]
  by blast

theorem one_instance_per_key_witness:
  "getInstance stOp ''main_5_text'' = Some 0 \<and> element (heap stOp 0) = Some 100 \<and>
   uiPresent stOp oneInput (Some 100) \<and>
   setupInput oneInput [textWidget ''text'' 1] (textWidget ''text'' 1) stOp = (None, stOp) \<and>
   snd (createAssistant oneInput (Some ''text'') (textWidget ''text'' 1) None stOp) = stOp \<and>
   fst (createAssistant oneInput (Some ''text'') (textWidget ''text'' 1) None stOp) = Some 0 \<and>
   instances st0 = [] \<and>
   checkAndSetupNode noView (nodeWith [textWidget ''a'' 1, textWidget ''b'' 2])
     (snd (checkAndSetupNode noView (nodeWith [textWidget ''a'' 1, textWidget ''b'' 2]) st0)) =
     (None, snd (checkAndSetupNode noView (nodeWith [textWidget ''a'' 1, textWidget ''b'' 2]) st0)) \<and>
   instances (snd (checkAndSetupNode noView (nodeWith [textWidget ''a'' 1, textWidget ''b'' 2]) st0))
     = [(''main_5_a'', 0), (''main_5_b'', 1)]"
proof -
  let ?n2 = "nodeWith [textWidget ''a'' 1, textWidget ''b'' 2]"
  let ?ws = "[textWidget ''a'' 1, textWidget ''b'' 2]"
  have a: "resolveKey (appGraph stOp) (els stOp) oneInput [textWidget ''text'' 1]
      (textWidget ''text'' 1) = Inr ''main_5_text''"
    "getInstance stOp ''main_5_text'' = Some 0" "element (heap stOp 0) = Some 100"
    "uiPresent stOp oneInput (Some 100)"
    "text_element (heap stOp 0) = w_inputEl (textWidget ''text'' 1)"
    by code_simp+
  have b: "hasInstance stOp (widgetKeyFor stOp oneInput (Some ''text'') None)"
    "fst (createAssistant oneInput (Some ''text'') (textWidget ''text'' 1) None stOp) = Some 0"
    by code_simp+
  have c: "featuresEnabled st0" "n_widgets ?n2 = Some ?ws"
    "isValidNode (vueNodesMode st0) ?n2" "filter w_valid ?ws \<noteq> []"
    "distinct (map (\<lambda>iw. getAssistantKey (appGraph st0) ?n2 (inputIdOf iw)) (filter w_valid ?ws))"
    "instances st0 = []"
    "instances (snd (checkAndSetupNode noView ?n2 st0)) = [(''main_5_a'', 0), (''main_5_b'', 1)]"
    by code_simp+
  have c6: "\<forall>iw\<in>set (filter w_valid ?ws). truthy (inputIdOf iw) \<and>
         (\<exists>e. elOf iw = Some e \<and> \<not> paMounted (els st0 e)) \<and>
         \<not> hasInstance st0 (getAssistantKey (appGraph st0) ?n2 (inputIdOf iw))"
    by (simp add: textWidget_def inputIdOf_def js_or_def truthy_def elOf_def st0_def
        blankEl_def hasInstance_def)
  note T1 = one_instance_per_key [where st = stOp and node = oneInput
      and vs = "[textWidget ''text'' 1]" and iw = "textWidget ''text'' 1"
      and key = "''main_5_text''" and w = 0 and ui = 100 and i = "Some ''text''" and ak = None]
  note T2 = one_instance_per_key [where st = st0 and node = ?n2 and ws = ?ws and view = noView]
  from T1 a have x: "setupInput oneInput [textWidget ''text'' 1] (textWidget ''text'' 1) stOp =
      (None, stOp)" by blast
  from T1 b have y: "snd (createAssistant oneInput (Some ''text'') (textWidget ''text'' 1) None stOp)
      = stOp" by blast
  from T2 c c6 have z: "checkAndSetupNode noView ?n2 (snd (checkAndSetupNode noView ?n2 st0)) =
      (None, snd (checkAndSetupNode noView ?n2 st0))" by blast
  from a b c x y z show ?thesis by blast
qed

end
